theory Spec2Isabelle
  imports Complex_Main "HOL-Library.Word" "HOL-Library.Monad_Syntax" "HOL-Library.Sublist"
begin

section \<open>The autoleveller of pcb2gcode (autoleveller.cpp)\<close>

text \<open>
  The theory embeds the class \<open>autoleveller\<close>: the planner of the probe grid
  (\<open>computeWorkarea\<close>, \<open>prepareWorkarea\<close>), the emitter of the probing program
  (\<open>header\<close>, \<open>footerNoIf\<close>) and the point corrector (\<open>numOfSubsegments\<close>,
  \<open>splitSegment\<close>, \<open>interpolatePoint\<close>, \<open>addChainPoint\<close>, \<open>g01Corrected\<close>).

  Conventions of the embedding.
  \<^item> A \<open>double\<close> is a \<open>real\<close>: arithmetic is exact, rounding errors are not modelled.
    The two infinities that \<open>computeWorkarea\<close> itself introduces are values of the
    type \<open>edouble\<close>.
  \<^item> The result \<open>None\<close> of a function stands for an execution whose behaviour C++
    leaves undefined (an end iterator dereferenced, a \<open>double\<close> that is not finite or
    out of range converted to an integer, a signed overflow in the grid planner), or,
    for the loops defined by \<^theory_text>\<open>partial_function\<close>, for a loop that never ends.
  \<^item> An \<open>int\<close> is an \<open>int\<close> of HOL. Values enter from a \<open>double\<close> through the checked
    conversion \<open>to_int\<close>, and the planner checks its sum \<open>temp + 1\<close> against the range
    of 32 bits, so that an overflow is an undefined run. An \<open>unsigned int\<close> is a
    \<open>32 word\<close>, whose arithmetic wraps.
  \<^item> The declaration of the class is not part of the source file. The members
    \<open>numXPoints\<close> and \<open>numYPoints\<close>, which the planner computes in the local \<open>int temp\<close>
    before it stores them, are taken as \<open>unsigned int\<close>. They are kept as \<open>int\<close> of HOL;
    the planner stores values from 2 to \<open>2 ^ 31 - 1\<close>. The two expressions that can
    leave the range of 32 bits for such members, the product
    \<open>numXPoints * numYPoints\<close> and the index \<open>i * numYPoints + j + 500\<close> of the table, are
    reduced modulo \<open>2 ^ 32\<close> (\<open>uint32\<close>).
  \<^item> Emitted text is a list of tokens (\<open>tok\<close>): the characters written literally are
    kept as strings, a number written by a conversion is kept as the number together
    with the conversion that prints it.
\<close>

subsection \<open>Data\<close>

text \<open>
  The enumeration \<open>Software\<close>; its values index the tables of three entries below.
  \<open>LINUXCNC\<close>, \<open>MACH4\<close> and \<open>MACH3\<close> are 0, 1 and 2: the tables of \<open>footerNoIf\<close> hold
  the call of \<open>callSub2[MACH4]\<close> second and the global parameters of \<open>callSub2[MACH3]\<close>
  third.
\<close>

datatype Software = LINUXCNC | MACH4 | MACH3 | CUSTOM

fun idx :: "Software \<Rightarrow> nat" where
  "idx LINUXCNC = 0"
| "idx MACH4 = 1"
| "idx MACH3 = 2"
| "idx CUSTOM = 3"

text \<open>
  Tokens of emitted text.
  \<open>S s\<close>: the characters \<open>s\<close>.
  \<open>I n\<close>: the integer \<open>n\<close> in decimal (\<open>operator<<\<close>, \<open>%d\<close>, \<open>lexical_cast\<close> of an integer).
  \<open>D x\<close>: the double \<open>x\<close> as the stream or an unadorned format directive prints it.
  \<open>F d x\<close>: the double \<open>x\<close> printed with \<open>d\<close> decimals (\<open>%.df\<close>).
  \<open>L x\<close>: the double \<open>x\<close> printed by \<open>lexical_cast<string>\<close>.
  \<open>P n\<close>: the parameter name \<open>#n\<close> that \<open>getVarName\<close> builds.
\<close>

datatype tok = S string | I int | D real | F nat real | L real | P int

type_synonym gtext = "tok list"

abbreviation endl :: tok where
  "endl \<equiv> S ''\<newline>''"

type_synonym icoordpair = "real \<times> real"
type_synonym icoords = "icoordpair list"

datatype edouble = Fin real | PInf | MInf

record TileInfo =
  enabled :: bool
  boardWidth :: real
  boardHeight :: real
  tileX :: int
  tileY :: int

text \<open>The entries of the \<open>variables_map\<close> that the constructor reads.\<close>

record options =
  opt_metric :: bool
  opt_metricoutput :: bool
  opt_al_probecode :: string
  opt_al_probevar :: nat
  opt_al_setzzero :: string
  opt_al_x :: real
  opt_al_y :: real
  opt_zwork :: real
  opt_zsafe :: real
  opt_al_probefeed :: real
  opt_al_2ndprobefeed :: "real option"
  opt_al_probe_on :: string
  opt_al_probe_off :: string
  opt_software :: string

text \<open>
  A format string of \<open>boost::format\<close>, split into its literal pieces and its
  directives: \<open>Dir k\<close> is \<open>%k%\<close>, \<open>%k$s\<close> or \<open>%k$d\<close>, and \<open>DirF k d\<close> is \<open>%k$.df\<close>.
\<close>

datatype piece = Lit gtext | Dir nat | DirF nat nat

type_synonym template = "piece list"

record autoleveller =
  unitconv :: real
  cfactor :: real
  probeCodeCustom :: gtext
  zProbeResultVarCustom :: gtext
  setZZeroCustom :: gtext
  XProbeDistRequired :: real
  YProbeDistRequired :: real
  zwork :: gtext
  zprobe :: gtext
  zsafe :: gtext
  zfail :: gtext
  feedrate :: gtext
  feedrate2nd :: gtext
  probeOn :: gtext
  probeOff :: gtext
  software :: Software
  quantization_error :: real
  xoffset :: real
  yoffset :: real
  g01InterpolatedNum :: nat
  yProbeNum :: nat
  xProbeNum :: nat
  returnVar :: gtext
  globalVar0 :: gtext
  globalVar1 :: gtext
  globalVar2 :: gtext
  globalVar3 :: gtext
  globalVar4 :: gtext
  globalVar5 :: gtext
  tileInfo :: TileInfo
  initialXOffsetVar :: nat
  initialYOffsetVar :: nat
  callSub2 :: "template list"
  startPointX :: real
  startPointY :: real
  numXPoints :: int
  numYPoints :: int
  XProbeDist :: real
  YProbeDist :: real
  averageProbeDist :: real
  lastPoint :: icoordpair

subsection \<open>Conversions of numbers\<close>

text \<open>\<open>round\<close> of the C library: to the nearest integer, halfway cases away from zero.\<close>

definition c_round :: "real \<Rightarrow> int" where
  "c_round x = (if 0 \<le> x then \<lfloor>x + 1 / 2\<rfloor> else \<lceil>x - 1 / 2\<rceil>)"

text \<open>
  The conversion of an integral \<open>double\<close> to \<open>int\<close> and to \<open>unsigned int\<close>: undefined
  when the value is outside the range of the target type.
\<close>

definition to_int :: "int \<Rightarrow> int option" where
  "to_int v = (if - (2 ^ 31) \<le> v \<and> v < 2 ^ 31 then Some v else None)"

definition to_uint :: "int \<Rightarrow> 32 word option" where
  "to_uint v = (if 0 \<le> v \<and> v < 2 ^ 32 then Some (word_of_int v) else None)"

text \<open>
  The value of an expression of type \<open>unsigned int\<close> whose operands have the
  mathematical result \<open>v\<close>: the arithmetic of 32 bits wraps around.
\<close>

definition uint32 :: "int \<Rightarrow> int" where
  "uint32 v = v mod 2 ^ 32"

text \<open>
  The value that a controller reads back from a double printed with \<open>d\<close> decimals:
  the nearest multiple of \<open>10 ^ - d\<close>, a tie going to the even digit.
\<close>

definition round_half_even :: "real \<Rightarrow> int" where
  "round_half_even y =
     (let f = \<lfloor>y\<rfloor> in
      if y - of_int f < 1 / 2 then f
      else if 1 / 2 < y - of_int f then f + 1
      else if even f then f else f + 1)"

definition printed :: "nat \<Rightarrow> real \<Rightarrow> real" where
  "printed d x = of_int (round_half_even (x * 10 ^ d)) / 10 ^ d"

subsection \<open>Collaborators\<close>

text \<open>
  Modelled from the spec: the class \<open>uniqueCodes\<close> is not part of the source file. The
  spec describes it as a monotonic allocator, \<open>next() -> integer\<close>, that never hands
  out a code twice; the state is the next code, and a call returns it and advances.
\<close>

type_synonym uniqueCodes = nat

definition getUniqueCode :: "uniqueCodes \<Rightarrow> nat \<times> uniqueCodes" where
  "getUniqueCode c = (c, c + 1)"

text \<open>\<open>boost::iequals\<close> and \<open>boost::replace_all_copy(s, "@", "\n")\<close> on ASCII strings.\<close>

definition to_lower :: "char \<Rightarrow> char" where
  "to_lower c =
     (case map_of (zip ''ABCDEFGHIJKLMNOPQRSTUVWXYZ'' ''abcdefghijklmnopqrstuvwxyz'') c of
        Some l \<Rightarrow> l | None \<Rightarrow> c)"

definition iequals :: "string \<Rightarrow> string \<Rightarrow> bool" where
  "iequals s t = (map to_lower s = map to_lower t)"

definition replace_at :: "string \<Rightarrow> string" where
  "replace_at s = map (\<lambda>c. if c = CHR ''@'' then CHR 0x0A else c) s"

text \<open>
  Feeding arguments to a format: directive \<open>k\<close> prints the \<open>k\<close>-th argument. The
  formats built by \<open>silent_format\<close> print nothing for an argument that was not fed.
\<close>

fun nth_arg :: "gtext list \<Rightarrow> nat \<Rightarrow> gtext" where
  "nth_arg args k = (if 1 \<le> k \<and> k \<le> length args then args ! (k - 1) else [])"

fun fixed :: "nat \<Rightarrow> tok \<Rightarrow> tok" where
  "fixed d (D x) = F d x"
| "fixed d t = t"

fun feed :: "gtext list \<Rightarrow> piece \<Rightarrow> gtext" where
  "feed args (Lit t) = t"
| "feed args (Dir k) = nth_arg args k"
| "feed args (DirF k d) = map (fixed d) (nth_arg args k)"

definition bformat :: "template \<Rightarrow> gtext list \<Rightarrow> gtext" where
  "bformat f args = concat (map (feed args) f)"

subsection \<open>The tables of the dialects and the constructor\<close>

definition callSubRepeat :: "template list" where
  "callSubRepeat =
     [ [Lit [S ''o''], Dir 3, Lit [S '' repeat [''], Dir 2, Lit [S '']\<newline>''], Dir 4,
        Lit [S ''    o''], Dir 1, Lit [S '' call\<newline>''], Dir 4, Lit [S ''o''], Dir 3,
        Lit [S '' endrepeat\<newline>'']],
       [Lit [S ''M98 P''], Dir 1, Lit [S '' L''], Dir 2, Lit [S ''\<newline>'']],
       [Lit [S ''M98 P''], Dir 1, Lit [S '' L''], Dir 2, Lit [S ''\<newline>'']] ]"

definition probeCode :: "string list" where
  "probeCode = [''G38.2'', ''G31'', ''G31'']"

definition zProbeResultVar :: "string list" where
  "zProbeResultVar = [''#5063'', ''#5063'', ''#2002'']"

definition setZZero :: "string list" where
  "setZZero = [''G10 L20 P0 Z0'', ''G92 Z0'', ''G92 Z0'']"

text \<open>
  The constructor. The macros \<open>FIXED_FAIL_DEPTH_MM\<close> and \<open>FIXED_FAIL_DEPTH_IN\<close> come
  from the header file and are parameters here. The two allocators are objects
  behind pointers; their states go in and come out. The fields that the constructor
  leaves uninitialised (the grid and the cursor) are taken from \<open>rest\<close>. The codes are
  drawn in the order of the list of initialisers.
\<close>

definition software_of :: "string \<Rightarrow> Software" where
  "software_of s =
     (if iequals s ''linuxcnc'' then LINUXCNC
      else if iequals s ''mach3'' then MACH3
      else if iequals s ''mach4'' then MACH4 else CUSTOM)"

definition unitconv_of :: "options \<Rightarrow> real" where
  "unitconv_of opts =
     (if opt_metric opts then (if opt_metricoutput opts then 1 else 1 / 25.4)
      else (if opt_metricoutput opts then 25.4 else 1))"

definition new_autoleveller ::
  "real \<Rightarrow> real \<Rightarrow> options \<Rightarrow> uniqueCodes \<Rightarrow> uniqueCodes \<Rightarrow> real \<Rightarrow> real \<Rightarrow> real \<Rightarrow> TileInfo
    \<Rightarrow> autoleveller \<Rightarrow> autoleveller \<times> uniqueCodes \<times> uniqueCodes" where
  "new_autoleveller FIXED_FAIL_DEPTH_MM FIXED_FAIL_DEPTH_IN opts ocodes globalVars
       quantization_error_arg xoffset_arg yoffset_arg tileInfo_arg rest =
     (let uc = unitconv_of opts;
          cf = (if opt_metricoutput opts then 25.4 else 1);
          (c1, ocodes1) = getUniqueCode ocodes;
          (c2, ocodes2) = getUniqueCode ocodes1;
          (c3, ocodes3) = getUniqueCode ocodes2;
          (g0, globalVars0) = getUniqueCode globalVars;
          (g1, globalVars1) = getUniqueCode globalVars0;
          (g2, globalVars2) = getUniqueCode globalVars1;
          (g3, globalVars3) = getUniqueCode globalVars2;
          (g4, globalVars4) = getUniqueCode globalVars3;
          (g5, globalVars5) = getUniqueCode globalVars4;
          (g6, globalVars6) = getUniqueCode globalVars5;
          (g7, globalVars7) = getUniqueCode globalVars6;
          (g8, globalVars8) = getUniqueCode globalVars7
      in (rest\<lparr>
            unitconv := uc,
            cfactor := cf,
            probeCodeCustom := [S (opt_al_probecode opts)],
            zProbeResultVarCustom := [S ''#'', I (int (opt_al_probevar opts))],
            setZZeroCustom := [S (opt_al_setzzero opts)],
            XProbeDistRequired := opt_al_x opts * uc,
            YProbeDistRequired := opt_al_y opts * uc,
            zwork := [F 5 (opt_zwork opts * uc)],
            zprobe := [F 3 (opt_zsafe opts * uc)],
            zsafe := [F 3 (opt_zsafe opts * uc)],
            zfail := [F 3 (if opt_metricoutput opts then FIXED_FAIL_DEPTH_MM
                           else FIXED_FAIL_DEPTH_IN)],
            feedrate := (if 0 < opt_al_probefeed opts
                         then [L (opt_al_probefeed opts * uc)] else []),
            feedrate2nd := (case opt_al_2ndprobefeed opts of
                              Some v \<Rightarrow> [L (v * uc)] | None \<Rightarrow> []),
            probeOn := [S (replace_at (opt_al_probe_on opts))],
            probeOff := [S (replace_at (opt_al_probe_off opts))],
            software := software_of (opt_software opts),
            quantization_error := quantization_error_arg * cf,
            xoffset := xoffset_arg,
            yoffset := yoffset_arg,
            g01InterpolatedNum := c1,
            yProbeNum := c2,
            xProbeNum := c3,
            returnVar := [I (int g0)],
            globalVar0 := [I (int g1)],
            globalVar1 := [I (int g2)],
            globalVar2 := [I (int g3)],
            globalVar3 := [I (int g4)],
            globalVar4 := [I (int g5)],
            globalVar5 := [I (int g6)],
            tileInfo := tileInfo_arg,
            initialXOffsetVar := g7,
            initialYOffsetVar := g8,
            callSub2 :=
              [ [Lit [S ''o''], Dir 1, Lit [S '' call [''], Dir 2, Lit [S ''] [''], Dir 3,
                 Lit [S '']\<newline>'']],
                [Lit [S ''G65 P''], Dir 1, Lit [S '' A''], Dir 2, Lit [S '' B''], Dir 3,
                 Lit [S ''\<newline>'']],
                [Lit ([S ''#''] @ [I (int g1)] @ [S ''='']), Dir 2, Lit [S ''\<newline>''], Dir 4,
                 Lit ([S ''#''] @ [I (int g2)] @ [S ''='']), Dir 3, Lit [S ''\<newline>''], Dir 4,
                 Lit [S ''M98 P''], Dir 1, Lit [S ''\<newline>'']] ]
          \<rparr>, ocodes3, globalVars8))"

subsection \<open>The parameter table\<close>

text \<open>
  \<open>getVarName(i, j)\<close>: the name of the parameter that holds the probe of point \<open>(i, j)\<close>.
  The index is an expression of 32 bits, and \<open>lexical_cast\<close> prints its value.
\<close>

definition getVarName :: "autoleveller \<Rightarrow> int \<Rightarrow> int \<Rightarrow> tok" where
  "getVarName a i j = P (uint32 (i * numYPoints a + j + 500))"

subsection \<open>The workarea\<close>

text \<open>
  \<open>std::min_element\<close> and \<open>std::max_element\<close> under a comparison: the first smallest
  and the first largest element of a range. On an empty range both return the end
  iterator, which \<open>computeWorkarea\<close> dereferences.
\<close>

fun min_element :: "('a \<Rightarrow> 'a \<Rightarrow> bool) \<Rightarrow> 'a list \<Rightarrow> 'a option" where
  "min_element lt [] = None"
| "min_element lt (x # xs) = Some (foldl (\<lambda>m y. if lt y m then y else m) x xs)"

fun max_element :: "('a \<Rightarrow> 'a \<Rightarrow> bool) \<Rightarrow> 'a list \<Rightarrow> 'a option" where
  "max_element lt [] = None"
| "max_element lt (x # xs) = Some (foldl (\<lambda>m y. if lt m y then y else m) x xs)"

fun eless :: "edouble \<Rightarrow> edouble \<Rightarrow> bool" where
  "eless (Fin x) (Fin y) = (x < y)"
| "eless (Fin x) PInf = True"
| "eless MInf (Fin y) = True"
| "eless MInf PInf = True"
| "eless _ _ = False"

text \<open>\<open>std::min(a, b)\<close> is \<open>b < a ? b : a\<close> and \<open>std::max(a, b)\<close> is \<open>a < b ? b : a\<close>.\<close>

definition std_min :: "edouble \<Rightarrow> edouble \<Rightarrow> edouble" where
  "std_min x y = (if eless y x then y else x)"

definition std_max :: "edouble \<Rightarrow> edouble \<Rightarrow> edouble" where
  "std_max x y = (if eless x y then y else x)"

fun esub :: "edouble \<Rightarrow> real \<Rightarrow> edouble" where
  "esub (Fin x) r = Fin (x - r)"
| "esub PInf r = PInf"
| "esub MInf r = MInf"

type_synonym workarea = "(edouble \<times> edouble) \<times> (edouble \<times> edouble)"

text \<open>The loop of \<open>computeWorkarea\<close> over the paths.\<close>

fun scan_paths :: "workarea \<Rightarrow> icoords list \<Rightarrow> workarea option" where
  "scan_paths w [] = Some w"
| "scan_paths w (path # paths) =
     do {
       x0 \<leftarrow> min_element (\<lambda>p q. fst p < fst q) path;
       y0 \<leftarrow> min_element (\<lambda>p q. snd p < snd q) path;
       x1 \<leftarrow> max_element (\<lambda>p q. fst p < fst q) path;
       y1 \<leftarrow> max_element (\<lambda>p q. snd p < snd q) path;
       scan_paths
         ((std_min (fst (fst w)) (Fin (fst x0)), std_min (snd (fst w)) (Fin (snd y0))),
          (std_max (fst (snd w)) (Fin (fst x1)), std_max (snd (snd w)) (Fin (snd y1))))
         paths
     }"

definition computeWorkarea :: "autoleveller \<Rightarrow> icoords list \<Rightarrow> workarea option" where
  "computeWorkarea a toolpaths =
     do {
       w \<leftarrow> scan_paths ((PInf, PInf), (MInf, MInf)) toolpaths;
       Some ((esub (fst (fst w)) (xoffset a + quantization_error a),
              esub (snd (fst w)) (yoffset a + quantization_error a)),
             (esub (fst (snd w)) (xoffset a - quantization_error a),
              esub (snd (snd w)) (yoffset a - quantization_error a)))
     }"

subsection \<open>The planner of the grid\<close>

text \<open>
  \<open>prepareWorkarea\<close>. A corner of the workarea that is infinite makes the length of
  the workarea infinite or not a number, and the conversion of its rounded quotient
  to \<open>int\<close> undefined; so does a required distance of zero. The sum \<open>temp + 1\<close> is
  an \<open>int\<close> operation that can overflow. The product of the two numbers of points,
  which the gate compares with the ceiling of the dialect, is a product of 32 bits
  and wraps around.
\<close>

fun finite_part :: "edouble \<Rightarrow> real option" where
  "finite_part (Fin x) = Some x"
| "finite_part _ = None"

definition workareaLenX :: "autoleveller \<Rightarrow> real \<Rightarrow> real \<Rightarrow> real" where
  "workareaLenX a x0 x1 =
     (x1 - x0) * cfactor a
       + boardWidth (tileInfo a) * cfactor a * of_int (tileX (tileInfo a) - 1)"

definition workareaLenY :: "autoleveller \<Rightarrow> real \<Rightarrow> real \<Rightarrow> real" where
  "workareaLenY a y0 y1 =
     (y1 - y0) * cfactor a
       + boardHeight (tileInfo a) * cfactor a * of_int (tileY (tileInfo a) - 1)"

definition prepareWorkarea :: "autoleveller \<Rightarrow> icoords list \<Rightarrow> (bool \<times> autoleveller) option" where
  "prepareWorkarea a toolpaths =
     do {
       workarea \<leftarrow> computeWorkarea a toolpaths;
       x0 \<leftarrow> finite_part (fst (fst workarea));
       y0 \<leftarrow> finite_part (snd (fst workarea));
       x1 \<leftarrow> finite_part (fst (snd workarea));
       y1 \<leftarrow> finite_part (snd (snd workarea));
       let lenX = workareaLenX a x0 x1;
       let lenY = workareaLenY a y0 y1;
       tempX \<leftarrow> (if XProbeDistRequired a = 0 then None
                 else to_int (c_round (lenX / XProbeDistRequired a)));
       nx \<leftarrow> (if tempX > 1 then to_int (tempX + 1) else Some 2);
       tempY \<leftarrow> (if YProbeDistRequired a = 0 then None
                 else to_int (c_round (lenY / YProbeDistRequired a)));
       ny \<leftarrow> (if tempY > 1 then to_int (tempY + 1) else Some 2);
       let total = uint32 (nx * ny);
       let a' = a\<lparr> startPointX := x0 * cfactor a,
                    startPointY := y0 * cfactor a,
                    numXPoints := nx,
                    numYPoints := ny,
                    XProbeDist := lenX / of_int (nx - 1),
                    YProbeDist := lenY / of_int (ny - 1),
                    averageProbeDist := (lenX / of_int (nx - 1) + lenY / of_int (ny - 1)) / 2 \<rparr>;
       Some (if (software a = LINUXCNC \<and> total > 4501) \<or> (software a \<noteq> LINUXCNC \<and> total > 500)
             then False else True, a')
     }"

subsection \<open>The probing program\<close>

definition startSub :: "template list" where
  "startSub = [ [Lit [S ''o''], Dir 1, Lit [S '' sub'']], [Lit [S ''O''], Dir 1],
                [Lit [S ''O''], Dir 1] ]"

definition endSub :: "template list" where
  "endSub = [ [Lit [S ''o''], Dir 1, Lit [S '' endsub'']], [Lit [S ''M99'']], [Lit [S ''M99'']] ]"

definition var1 :: "autoleveller \<Rightarrow> gtext list" where
  "var1 a = [[S ''1''], [S ''1''], globalVar0 a]"

definition var2 :: "autoleveller \<Rightarrow> gtext list" where
  "var2 a = [[S ''2''], [S ''2''], globalVar1 a]"

text \<open>The corrected move that ends the first subroutine of \<open>footerNoIf\<close>.\<close>

definition corrected_g01 :: "autoleveller \<Rightarrow> gtext" where
  "corrected_g01 a =
     [S ''    G01 X#''] @ var1 a ! idx (software a) @ [S '' Y#''] @ var2 a ! idx (software a)
     @ [S '' Z[''] @ zwork a @ [S ''+#15]'', endl]"

text \<open>
  \<open>footerNoIf\<close>: the three subroutines of the dialects that have subroutines. The
  local tables that the function declares and never reads are left out.
\<close>

definition footerNoIf :: "autoleveller \<Rightarrow> uniqueCodes \<Rightarrow> gtext \<times> uniqueCodes" where
  "footerNoIf a ocodes =
     (if software a \<noteq> CUSTOM then
        (let s = idx (software a); (c, ocodes') = getUniqueCode ocodes in
         (bformat (startSub ! s) [[I (int (g01InterpolatedNum a))]]
            @ [S '' ( G01 with Z-correction subroutine )'', endl]
          @ (if enabled (tileInfo a) then
               [S ''    #3 = [ #5211 - #'', I (int (initialXOffsetVar a)),
                S '' ] ( x-tile offset [minus the initial offset] )'', endl,
                S ''    #4 = [ #5212 - #'', I (int (initialYOffsetVar a)),
                S '' ] ( y-tile offset [minus the initial offset] )'', endl]
             else
               [S ''    #3 = 0 ( x-tile offset [minus the initial offset] )'', endl,
                S ''    #4 = 0 ( x-tile offset [minus the initial offset] )'', endl])
          @ [S ''    #5 = [ FIX[ [ #''] @ var1 a ! s @ [S '' - '', D (startPointX a),
              S '' + #3 ] / '', D (XProbeDist a), S '' ] ] ( Lower left point X index )'', endl]
          @ [S ''    #6 = [ FIX[ [ #''] @ var2 a ! s @ [S '' - '', D (startPointY a),
              S '' + #4 ] / '', D (YProbeDist a), S '' ] ] ( Lower left point Y index )'', endl]
          @ [S ''    #7 = [ #5 * '', I (numYPoints a),
              S '' + [ #6 + 1 ] + 500 ] ( Upper left point parameter number )'', endl]
          @ [S ''    #8 = [ [ #5 + 1 ] *'', I (numYPoints a),
              S '' + [ #6 + 1 ] + 500 ] ( Upper right point parameter number )'', endl]
          @ [S ''    #9 = [ #5 * '', I (numYPoints a),
              S '' + #6 + 500 ] ( Lower left point parameter number )'', endl]
          @ [S ''    #10 = [ [ #5 + 1 ] * '', I (numYPoints a),
              S '' + #6 + 500 ] ( Lower right point parameter number )'', endl]
          @ [S ''    #11 = [ [ #''] @ var2 a ! s @ [S '' + #4 - '', D (startPointY a),
              S '' - #6 * '', D (YProbeDist a), S '' ] / '', D (YProbeDist a), S '' ] '',
              S ''( Distance between the point and the left border of the rectangle, normalized to 1 )'',
              endl]
          @ [S ''    #12 = [ [ #''] @ var1 a ! s @ [S '' + #3 - '', D (startPointX a),
              S '' - #5 * '', D (XProbeDist a), S '' ] / '', D (XProbeDist a), S '' ] '',
              S ''( Distance between the point and the bottom border of the rectangle, normalized to 1 ) '',
              endl]
          @ [S ''    #13 = [ ##9 + [ ##7 - ##9 ] * #11 ] ( Linear interpolation of the x-min elements )'',
              endl]
          @ [S ''    #14 = [ ##10 + [ ##8 - ##10 ] * #11 ] ( Linear interpolation of the x-max elements )'',
              endl]
          @ [S ''    #15 = [ #13 + [ #14 - #13 ] * #12 ] ( Linear interpolation of previously interpolated points )'',
              endl]
          @ corrected_g01 a
          @ bformat (endSub ! s) [[I (int (g01InterpolatedNum a))]] @ [endl]
          @ [endl]
          @ bformat (startSub ! s) [[I (int (yProbeNum a))]] @ [S '' ( Y probe subroutine )'', endl]
          @ [S ''    G0 Z''] @ zprobe a @ [S '' ( Move to probe height )'', endl]
          @ [S ''    X[#''] @ globalVar0 a @ [S '' * '', D (XProbeDist a), S '' + '',
              D (startPointX a), S ''] Y[#''] @ globalVar1 a @ [S '' * '', D (YProbeDist a),
              S '' + '', D (startPointY a), S ''] ( Move to the current probe point )'', endl]
          @ [S ''    '', S (probeCode ! s), S '' Z''] @ zfail a @ [S '' F''] @ feedrate a
            @ [S '' ( Probe it )'', endl]
          @ [S ''    #[#''] @ globalVar0 a @ [S '' * '', I (numYPoints a), S '' + #'']
            @ globalVar1 a @ [S '' + 500] = '']
            @ (if software a = CUSTOM then zProbeResultVarCustom a else [S (zProbeResultVar ! s)])
            @ [S '' ( Save the probe in the correct parameter )'', endl]
          @ [S ''    #''] @ globalVar1 a @ [S '' = [#''] @ globalVar1 a @ [S '' + #'']
            @ globalVar2 a @ [S ''] ( Increment/decrement by 1 the Y counter )'', endl]
          @ bformat (endSub ! s) [[I (int (yProbeNum a))]] @ [endl]
          @ [endl]
          @ bformat (startSub ! s) [[I (int (xProbeNum a))]] @ [S '' ( X probe subroutine )'', endl]
          @ [S ''    '']
            @ bformat (callSubRepeat ! s)
                [[I (int (yProbeNum a))], [S ''#''] @ globalVar3 a, [I (int c)], [S ''    '']]
          @ [S ''    #''] @ globalVar3 a @ [S '' = '', I (numYPoints a), endl]
          @ [S ''    #''] @ globalVar2 a @ [S '' = [0 - #''] @ globalVar2 a @ [S '']'', endl]
          @ [S ''    #''] @ globalVar1 a @ [S '' = [#''] @ globalVar1 a @ [S '' + #'']
            @ globalVar2 a @ [S '']'', endl]
          @ [S ''    #''] @ globalVar0 a @ [S '' = [#''] @ globalVar0 a
            @ [S '' + 1] ( Increment by 1 the X counter )'', endl]
          @ bformat (endSub ! s) [[I (int (xProbeNum a))]] @ [endl]
          @ [endl],
          ocodes'))
      else ([], ocodes))"

definition logFileOpenAndComment :: "string list" where
  \<open>logFileOpenAndComment =
     [ ''(PROBEOPEN RawProbeLog.txt) ( Record all probes in RawProbeLog.txt )'',
       ''M40 (Begins a probe log file, when the window appears, enter a name for the log file such as "RawProbeLog.txt")'',
       ''M40 (Begins a probe log file, when the window appears, enter a name for the log file such as "RawProbeLog.txt")'' ]\<close>

definition logFileClose :: "string list" where
  "logFileClose = [''(PROBECLOSE)'', ''M41'', ''M41'']"

text \<open>The probe command, the zero command and the result parameter of the dialect.\<close>

definition probe_command :: "autoleveller \<Rightarrow> gtext" where
  "probe_command a =
     (if software a = CUSTOM then probeCodeCustom a else [S (probeCode ! idx (software a))])"

definition zero_command :: "autoleveller \<Rightarrow> gtext" where
  "zero_command a =
     (if software a = CUSTOM then setZZeroCustom a else [S (setZZero ! idx (software a))])"

definition result_var :: "autoleveller \<Rightarrow> gtext" where
  "result_var a =
     (if software a = CUSTOM then zProbeResultVarCustom a
      else [S (zProbeResultVar ! idx (software a))])"

text \<open>Four lines of \<open>header\<close> that carry a depth or the reference value.\<close>

definition move_to_safe_height :: "autoleveller \<Rightarrow> gtext" where
  "move_to_safe_height a = [S ''G0 Z''] @ zsafe a @ [S '' ( Move Z to safe height )'', endl]"

definition move_to_probe_height :: "autoleveller \<Rightarrow> gtext" where
  "move_to_probe_height a = [S ''G0 Z''] @ zprobe a @ [S '' ( Move Z to probe height )'', endl]"

definition reference_probe :: "autoleveller \<Rightarrow> gtext" where
  "reference_probe a =
     probe_command a @ [S '' Z''] @ zfail a @ [S '' F''] @ feedrate a @ [S '' ( Z-probe )'', endl]"

definition reference_value :: gtext where
  "reference_value = [S ''#500 = 0 ( Probe point [0, 0] is our reference )'', endl]"

text \<open>The first lines of the first pass of \<open>header\<close>, up to the start of the traversal.\<close>

definition header_reference :: "autoleveller \<Rightarrow> gtext" where
  "header_reference a =
     (if enabled (tileInfo a) then
        [S ''#'', I (int (initialXOffsetVar a)), S '' = #5211\<newline>'',
         S ''#'', I (int (initialYOffsetVar a)), S '' = #5212\<newline>\<newline>'']
      else
        [S ''#'', I (int (initialXOffsetVar a)), S '' = 0\<newline>'',
         S ''#'', I (int (initialYOffsetVar a)), S '' = 0\<newline>\<newline>''])
     @ probeOn a @ [endl]
     @ move_to_safe_height a
     @ [S ''G0 X'', D (startPointX a), S '' Y'', D (startPointY a),
        S '' ( Move XY to start point )'', endl]
     @ move_to_probe_height a
     @ (if software a \<noteq> CUSTOM then [S (logFileOpenAndComment ! idx (software a)), endl] else [])
     @ reference_probe a
     @ reference_value
     @ zero_command a @ [S '' ( Set the current Z as zero-value )'', endl]
     @ [endl]
     @ [S ''( We now start the real probing: move the Z axis to the probing height, move to )'', endl]
     @ [S ''( the probing XY position, probe it and save the result, parameter '']
       @ result_var a @ [S '', )'', endl]
     @ [S ''( in a numbered parameter; we will make '', I (numXPoints a),
        S '' probes on the X-axis and )'', endl]
     @ [S ''( '', I (numYPoints a), S '' probes on the Y-axis, for a grand total of '',
        I (uint32 (numXPoints a * numYPoints a)), S '' probes )'', endl]
     @ [endl]"

text \<open>The four lines that the unrolled traversal writes for the point \<open>(i, j)\<close>.\<close>

definition probe_point :: "autoleveller \<Rightarrow> int \<Rightarrow> int \<Rightarrow> gtext" where
  "probe_point a i j =
     [S ''G0 Z''] @ zprobe a @ [endl]
     @ [S ''X'', D (of_int i * XProbeDist a + startPointX a),
        S '' Y'', D (of_int j * YProbeDist a + startPointY a), endl]
     @ probeCodeCustom a @ [S '' Z''] @ zfail a @ [S '' F''] @ feedrate a @ [endl]
     @ [getVarName a i j, S ''=''] @ zProbeResultVarCustom a @ [endl]"

text \<open>
  The two nested loops of the unrolled traversal. The inner loop returns the column
  index at which it stopped; the outer loop flips the direction and steps back.
\<close>

partial_function (option) header_while ::
  "autoleveller \<Rightarrow> int \<Rightarrow> int \<Rightarrow> int \<Rightarrow> gtext \<Rightarrow> (int \<times> gtext) option" where
  "header_while a i j incr_decr out =
     (if j \<ge> 0 \<and> j \<le> numYPoints a - 1
      then header_while a i (j + incr_decr) incr_decr (out @ probe_point a i j)
      else Some (j, out))"

partial_function (option) header_for ::
  "autoleveller \<Rightarrow> int \<Rightarrow> int \<Rightarrow> int \<Rightarrow> gtext \<Rightarrow> gtext option" where
  "header_for a i j incr_decr out =
     (if i < numXPoints a
      then do {
             (j', out') \<leftarrow> header_while a i j incr_decr out;
             header_for a (i + 1) (j' + (- incr_decr)) (- incr_decr) out'
           }
      else Some out)"

text \<open>The traversal of the grid: by the loop of the controller, or unrolled.\<close>

definition header_traversal :: "autoleveller \<Rightarrow> uniqueCodes \<Rightarrow> (gtext \<times> uniqueCodes) option" where
  "header_traversal a ocodes =
     (if software a \<noteq> CUSTOM then
        (let (c, ocodes') = getUniqueCode ocodes in
         Some ([S ''#''] @ globalVar0 a @ [S '' = 0 ( X iterator )'', endl]
               @ [S ''#''] @ globalVar1 a @ [S '' = 1 ( Y iterator )'', endl]
               @ [S ''#''] @ globalVar2 a @ [S '' = 1 ( UP or DOWN increment )'', endl]
               @ [S ''#''] @ globalVar3 a @ [S '' = '', I (numYPoints a - 1),
                  S '' ( number of Y points; the 1st Y row can be done one time less )'', endl]
               @ bformat (callSubRepeat ! idx (software a))
                   [[I (int (xProbeNum a))], [I (numXPoints a)], [I (int c)]],
               ocodes'))
      else map_option (\<lambda>out. (out, ocodes)) (header_for a 0 1 1 []))"

definition header_second_pass :: "autoleveller \<Rightarrow> gtext" where
  "header_second_pass a =
     [endl]
     @ [S ''T2'', endl]
     @ [S ''(MSG, Insert the mill tool)'', endl]
     @ [S ''M0 (Temporary machine stop.)'', endl]
     @ [S ''G0 Z[''] @ zsafe a @ [S '' + '', D (0.2 * cfactor a), S ''] ( Move Z to safe height )'', endl]
     @ [S ''G0 X'', D (startPointX a), S '' Y'', D (startPointY a),
        S '' ( Move XY to start point )'', endl]
     @ [S ''G0 Z[''] @ zprobe a @ [S '' + '', D (0.2 * cfactor a), S ''] ( Move Z to probe height )'', endl]
     @ probe_command a @ [S '' Z[''] @ zfail a @ [S '' - '', D (0.2 * cfactor a), S ''] F'']
       @ feedrate2nd a @ [S '' ( Probe )'', endl]
     @ zero_command a @ [S '' ( Set the current Z as zero-value )'', endl]"

text \<open>The line of the custom dialect that stores the working depth in parameter 4.\<close>

definition working_depth_parameter :: "autoleveller \<Rightarrow> gtext" where
  "working_depth_parameter a = [S ''\<newline>#4 = ''] @ zwork a @ [S ''\<newline>'']"

definition header_end :: "autoleveller \<Rightarrow> gtext" where
  "header_end a =
     [endl]
     @ move_to_safe_height a
     @ (if software a \<noteq> CUSTOM
        then [S (logFileClose ! idx (software a)), S '' ( Close the probe log file )'', endl] else [])
     @ [S ''( Probing has ended, each Z-coordinate will be corrected with a bilinear interpolation )'',
        endl]
     @ probeOff a @ [endl]
     @ (if software a = CUSTOM then working_depth_parameter a else [])
     @ [endl]"

text \<open>\<open>header\<close>: what the function appends to the stream, and the state of the allocator.\<close>

definition header :: "autoleveller \<Rightarrow> uniqueCodes \<Rightarrow> (gtext \<times> uniqueCodes) option" where
  "header a ocodes =
     (let (sub, ocodes1) = (if software a = LINUXCNC then footerNoIf a ocodes else ([], ocodes)) in
      do {
        (first, ocodes2) \<leftarrow>
          (if feedrate a \<noteq> [] then
             do {
               (trav, ocodes') \<leftarrow> header_traversal a ocodes1;
               Some (header_reference a @ trav, ocodes')
             }
           else Some ([], ocodes1));
        Some (sub @ first
              @ (if feedrate2nd a \<noteq> [] then header_second_pass a else [])
              @ header_end a,
              ocodes2)
      })"

subsection \<open>The point corrector\<close>

text \<open>
  \<open>interpolatePoint\<close>. The indices are conversions of a floor to \<open>int\<close>; a spacing of
  zero makes the quotient infinite or not a number. The format string is split at
  the boundaries of the words of the G-code, so that \<open>#1=[\<close> reads
  \<open>P 1\<close>, \<open>=\<close>, \<open>[\<close>.
\<close>

definition xminindex :: "autoleveller \<Rightarrow> icoordpair \<Rightarrow> int option" where
  "xminindex a point =
     (if XProbeDist a = 0 then None
      else to_int \<lfloor>(fst point - startPointX a) / XProbeDist a\<rfloor>)"

definition yminindex :: "autoleveller \<Rightarrow> icoordpair \<Rightarrow> int option" where
  "yminindex a point =
     (if YProbeDist a = 0 then None
      else to_int \<lfloor>(snd point - startPointY a) / YProbeDist a\<rfloor>)"

definition x_minus_x0_rel :: "autoleveller \<Rightarrow> icoordpair \<Rightarrow> int \<Rightarrow> real" where
  "x_minus_x0_rel a point xi =
     (fst point - startPointX a - of_int xi * XProbeDist a) / XProbeDist a"

definition y_minus_y0_rel :: "autoleveller \<Rightarrow> icoordpair \<Rightarrow> int \<Rightarrow> real" where
  "y_minus_y0_rel a point yi =
     (snd point - startPointY a - of_int yi * YProbeDist a) / YProbeDist a"

definition interpolate_format :: template where
  "interpolate_format =
     [ Lit [P 1, S ''='', S ''[''], Dir 3, Lit [S ''+'', S ''[''], Dir 1, Lit [S ''-''], Dir 3,
       Lit [S '']'', S ''*''], DirF 5 5, Lit [S '']'', endl],
       Lit [P 2, S ''='', S ''[''], Dir 4, Lit [S ''+'', S ''[''], Dir 2, Lit [S ''-''], Dir 4,
       Lit [S '']'', S ''*''], DirF 5 5, Lit [S '']'', endl],
       Lit [P 3, S ''='', S ''['', P 1, S ''+'', S ''['', P 2, S ''-'', P 1, S '']'', S ''*''],
       DirF 6 5, Lit [S '']'', endl] ]"

definition interpolatePoint :: "autoleveller \<Rightarrow> icoordpair \<Rightarrow> gtext option" where
  "interpolatePoint a point =
     do {
       xi \<leftarrow> xminindex a point;
       yi \<leftarrow> yminindex a point;
       Some (bformat interpolate_format
               [ [getVarName a xi (yi + 1)],
                 [getVarName a (xi + 1) (yi + 1)],
                 [getVarName a xi yi],
                 [getVarName a (xi + 1) yi],
                 [D (y_minus_y0_rel a point yi)],
                 [D (x_minus_x0_rel a point xi)] ])
     }"

text \<open>
  \<open>boost::geometry::distance\<close> of two points of the plane, and \<open>numOfSubsegments\<close>:
  the conversion of the ceiling to \<open>unsigned int\<close>, undefined for a spacing of zero
  (the quotient is infinite or not a number) and for a value outside the range.
  \<open>abs\<close> is the absolute value of a \<open>double\<close>.
\<close>

definition distance :: "icoordpair \<Rightarrow> icoordpair \<Rightarrow> real" where
  "distance p q = sqrt ((fst p - fst q)\<^sup>2 + (snd p - snd q)\<^sup>2)"

definition ceil_quotient :: "real \<Rightarrow> real \<Rightarrow> 32 word option" where
  "ceil_quotient d s = (if s = 0 then None else to_uint \<lceil>d / s\<rceil>)"

definition numOfSubsegments :: "autoleveller \<Rightarrow> icoordpair \<Rightarrow> 32 word option" where
  "numOfSubsegments a point =
     (if \<bar>fst (lastPoint a) - fst point\<bar> \<le> quantization_error a
      then ceil_quotient (distance (lastPoint a) point) (YProbeDist a)
      else if \<bar>snd (lastPoint a) - snd point\<bar> \<le> quantization_error a
      then ceil_quotient (distance (lastPoint a) point) (XProbeDist a)
      else ceil_quotient (distance (lastPoint a) point) (averageProbeDist a))"

text \<open>
  \<open>splitSegment\<close>: the loop \<open>for (unsigned int i = 1; i <= n; i++)\<close>, where \<open>i++\<close>
  wraps around at \<open>2 ^ 32\<close>.
\<close>

definition split_point :: "autoleveller \<Rightarrow> icoordpair \<Rightarrow> 32 word \<Rightarrow> 32 word \<Rightarrow> icoordpair" where
  "split_point a point n i =
     (fst (lastPoint a) + (fst point - fst (lastPoint a)) * real (unat i) / real (unat n),
      snd (lastPoint a) + (snd point - snd (lastPoint a)) * real (unat i) / real (unat n))"

partial_function (option) splitSegment_for ::
  "autoleveller \<Rightarrow> icoordpair \<Rightarrow> 32 word \<Rightarrow> 32 word \<Rightarrow> icoords \<Rightarrow> icoords option" where
  "splitSegment_for a point n i splittedSegment =
     (if i \<le> n
      then splitSegment_for a point n (i + 1) (splittedSegment @ [split_point a point n i])
      else Some splittedSegment)"

definition splitSegment :: "autoleveller \<Rightarrow> icoordpair \<Rightarrow> 32 word \<Rightarrow> icoords option" where
  "splitSegment a point n = splitSegment_for a point n 1 []"

text \<open>\<open>addChainPoint\<close> and \<open>g01Corrected\<close>: the text returned and the object afterwards.\<close>

definition call_sub2 :: "autoleveller \<Rightarrow> icoordpair \<Rightarrow> gtext" where
  "call_sub2 a p =
     bformat (callSub2 a ! idx (software a))
       [[I (int (g01InterpolatedNum a))], [D (fst p)], [D (snd p)]]"

fun chain_custom :: "autoleveller \<Rightarrow> icoords \<Rightarrow> gtext option" where
  "chain_custom a [] = Some []"
| "chain_custom a (p # ps) =
     do {
       t \<leftarrow> interpolatePoint a p;
       rest \<leftarrow> chain_custom a ps;
       Some (t @ bformat [Lit [S ''X''], DirF 1 5, Lit [S '' Y''], DirF 2 5,
                          Lit [S '' Z[#3+#4]\<newline>'']] [[D (fst p)], [D (snd p)]]
             @ rest)
     }"

definition addChainPoint :: "autoleveller \<Rightarrow> icoordpair \<Rightarrow> (gtext \<times> autoleveller) option" where
  "addChainPoint a point =
     do {
       n \<leftarrow> numOfSubsegments a point;
       subsegments \<leftarrow> splitSegment a point n;
       outputStr \<leftarrow>
         (if software a = LINUXCNC \<or> software a = MACH4 \<or> software a = MACH3
          then Some (concat (map (call_sub2 a) subsegments))
          else chain_custom a subsegments);
       Some (outputStr, a\<lparr>lastPoint := point\<rparr>)
     }"

definition g01Corrected :: "autoleveller \<Rightarrow> icoordpair \<Rightarrow> (gtext \<times> autoleveller) option" where
  "g01Corrected a point =
     (if software a = LINUXCNC \<or> software a = MACH4 \<or> software a = MACH3
      then Some (call_sub2 a point, a)
      else do {
             t \<leftarrow> interpolatePoint a point;
             Some (t @ [S ''G01 Z[''] @ zwork a @ [S ''+#''] @ returnVar a @ [S '']\<newline>''], a)
           })"

subsection \<open>Reading the emitted assignments\<close>

text \<open>
  The meaning of the lines that \<open>interpolatePoint\<close> emits, as a controller of the
  RS274 family reads them: a line \<open>#n=expression\<close> stores the value of the expression
  in parameter \<open>n\<close>; brackets group, \<open>*\<close> binds tighter than \<open>+\<close> and \<open>-\<close>, operators of
  the same strength are taken from the left; the lines run in order. The expression
  is evaluated with a stack of values and a stack of pending operators.
\<close>

datatype pending = OPlus | OMinus | OTimes | OBracket

type_synonym params = "int \<Rightarrow> real"

fun strength :: "pending \<Rightarrow> nat" where
  "strength OPlus = 1"
| "strength OMinus = 1"
| "strength OTimes = 2"
| "strength OBracket = 0"

fun apply_pending :: "pending \<Rightarrow> real list \<Rightarrow> real list option" where
  "apply_pending OPlus (y # x # vs) = Some ((x + y) # vs)"
| "apply_pending OMinus (y # x # vs) = Some ((x - y) # vs)"
| "apply_pending OTimes (y # x # vs) = Some ((x * y) # vs)"
| "apply_pending _ _ = None"

text \<open>Apply the pending operators that are at least as strong as \<open>k\<close>, down to a bracket.\<close>

fun unwind :: "nat \<Rightarrow> pending list \<Rightarrow> real list \<Rightarrow> (pending list \<times> real list) option" where
  "unwind k [] vs = Some ([], vs)"
| "unwind k (OBracket # ops) vs = Some (OBracket # ops, vs)"
| "unwind k (p # ops) vs =
     (if k \<le> strength p
      then (case apply_pending p vs of None \<Rightarrow> None | Some vs' \<Rightarrow> unwind k ops vs')
      else Some (p # ops, vs))"

fun push_operator :: "pending \<Rightarrow> pending list \<Rightarrow> real list \<Rightarrow> (pending list \<times> real list) option" where
  "push_operator p ops vs =
     (case unwind (strength p) ops vs of None \<Rightarrow> None | Some (ops', vs') \<Rightarrow> Some (p # ops', vs'))"

fun close_bracket :: "pending list \<Rightarrow> real list \<Rightarrow> (pending list \<times> real list) option" where
  "close_bracket ops vs =
     (case unwind 1 ops vs of
        Some (OBracket # ops', vs') \<Rightarrow> Some (ops', vs')
      | _ \<Rightarrow> None)"

fun expression :: "params \<Rightarrow> gtext \<Rightarrow> pending list \<Rightarrow> real list \<Rightarrow> real option" where
  "expression \<sigma> [] ops vs =
     (case unwind 1 ops vs of Some ([], [v]) \<Rightarrow> Some v | _ \<Rightarrow> None)"
| "expression \<sigma> (t # ts) ops vs =
     (case t of
        P n \<Rightarrow> expression \<sigma> ts ops (\<sigma> n # vs)
      | F d x \<Rightarrow> expression \<sigma> ts ops (printed d x # vs)
      | I n \<Rightarrow> expression \<sigma> ts ops (of_int n # vs)
      | S s \<Rightarrow>
          (if s = ''['' then expression \<sigma> ts (OBracket # ops) vs
           else if s = '']'' then
             (case close_bracket ops vs of None \<Rightarrow> None
              | Some (ops', vs') \<Rightarrow> expression \<sigma> ts ops' vs')
           else if s = ''+'' then
             (case push_operator OPlus ops vs of None \<Rightarrow> None
              | Some (ops', vs') \<Rightarrow> expression \<sigma> ts ops' vs')
           else if s = ''-'' then
             (case push_operator OMinus ops vs of None \<Rightarrow> None
              | Some (ops', vs') \<Rightarrow> expression \<sigma> ts ops' vs')
           else if s = ''*'' then
             (case push_operator OTimes ops vs of None \<Rightarrow> None
              | Some (ops', vs') \<Rightarrow> expression \<sigma> ts ops' vs')
           else None)
      | _ \<Rightarrow> None)"

text \<open>The lines of a text, and the assignments one after the other.\<close>

fun lines_of :: "gtext \<Rightarrow> gtext \<Rightarrow> gtext list" where
  "lines_of cur [] = (if cur = [] then [] else [cur])"
| "lines_of cur (t # ts) = (if t = endl then cur # lines_of [] ts else lines_of (cur @ [t]) ts)"

fun assignment :: "params \<Rightarrow> gtext \<Rightarrow> params option" where
  "assignment \<sigma> (P n # S s # ts) =
     (if s = ''='' then map_option (\<lambda>v. \<sigma>(n := v)) (expression \<sigma> ts [] []) else None)"
| "assignment \<sigma> _ = None"

fun assignments :: "params \<Rightarrow> gtext list \<Rightarrow> params option" where
  "assignments \<sigma> [] = Some \<sigma>"
| "assignments \<sigma> (l # ls) =
     (case assignment \<sigma> l of None \<Rightarrow> None | Some \<sigma>' \<Rightarrow> assignments \<sigma>' ls)"

definition run_assignments :: "gtext \<Rightarrow> params \<Rightarrow> params option" where
  "run_assignments t \<sigma> = assignments \<sigma> (lines_of [] t)"

subsection \<open>The traversal as the specification words it\<close>

text \<open>
  The order of the unrolled traversal in the words of the specification: the first
  column runs upwards from row 1, every later column runs over all rows, upwards in
  the columns of even index and downwards in the columns of odd index.
\<close>

definition serpentine_column :: "int \<Rightarrow> int \<Rightarrow> (int \<times> int) list" where
  "serpentine_column ny i =
     map (Pair i)
       (if i = 0 then map int [1 ..< nat ny]
        else if even i then map int [0 ..< nat ny]
        else rev (map int [0 ..< nat ny]))"

definition serpentine :: "int \<Rightarrow> int \<Rightarrow> (int \<times> int) list" where
  "serpentine nx ny = concat (map (serpentine_column ny) (map int [0 ..< nat nx]))"

subsection \<open>The step of a move as the specification words it\<close>

text \<open>
  The step size in the words of the specification: the spacing of the Y axis for a
  move of constant X within the tolerance, the spacing of the X axis for a move of
  constant Y within the tolerance, the average spacing otherwise.
\<close>

definition step_size :: "autoleveller \<Rightarrow> icoordpair \<Rightarrow> real" where
  "step_size a point =
     (if \<bar>fst (lastPoint a) - fst point\<bar> \<le> quantization_error a then YProbeDist a
      else if \<bar>snd (lastPoint a) - snd point\<bar> \<le> quantization_error a then XProbeDist a
      else averageProbeDist a)"

subsection \<open>Concrete objects\<close>

text \<open>
  An object for the concrete instances below: built by the constructor from a
  configuration in inches for the custom dialect, over fields that are all zero.
\<close>

definition unset :: autoleveller where
  "unset =
     \<lparr> unitconv = 0, cfactor = 0, probeCodeCustom = [], zProbeResultVarCustom = [],
       setZZeroCustom = [], XProbeDistRequired = 0, YProbeDistRequired = 0,
       zwork = [], zprobe = [], zsafe = [], zfail = [], feedrate = [], feedrate2nd = [],
       probeOn = [], probeOff = [], software = CUSTOM, quantization_error = 0,
       xoffset = 0, yoffset = 0, g01InterpolatedNum = 0, yProbeNum = 0, xProbeNum = 0,
       returnVar = [], globalVar0 = [], globalVar1 = [], globalVar2 = [], globalVar3 = [],
       globalVar4 = [], globalVar5 = [],
       tileInfo = \<lparr> enabled = False, boardWidth = 0, boardHeight = 0, tileX = 0, tileY = 0 \<rparr>,
       initialXOffsetVar = 0, initialYOffsetVar = 0, callSub2 = [],
       startPointX = 0, startPointY = 0, numXPoints = 0, numYPoints = 0,
       XProbeDist = 0, YProbeDist = 0, averageProbeDist = 0, lastPoint = (0, 0) \<rparr>"

definition sample_options :: options where
  "sample_options =
     \<lparr> opt_metric = False, opt_metricoutput = False, opt_al_probecode = ''G31'',
       opt_al_probevar = 2002, opt_al_setzzero = ''G92 Z0'', opt_al_x = 10, opt_al_y = 10,
       opt_zwork = - 1 / 20, opt_zsafe = 2, opt_al_probefeed = 100,
       opt_al_2ndprobefeed = None, opt_al_probe_on = ''(MSG, Attach the probe tool)@M0'',
       opt_al_probe_off = ''(MSG, Detach the probe tool)@M0'', opt_software = ''custom'' \<rparr>"

definition sample_tiles :: TileInfo where
  "sample_tiles = \<lparr> enabled = False, boardWidth = 0, boardHeight = 0, tileX = 1, tileY = 1 \<rparr>"

definition sample :: autoleveller where
  "sample = fst (new_autoleveller (- 3) (- 1 / 10) sample_options 100 100 0 0 0 sample_tiles unset)"

text \<open>The same configuration for LinuxCNC.\<close>

definition sample_linuxcnc :: autoleveller where
  "sample_linuxcnc =
     fst (new_autoleveller (- 3) (- 1 / 10) (sample_options\<lparr>opt_software := ''LinuxCNC''\<rparr>)
            100 100 0 0 0 sample_tiles unset)"

section \<open>Properties\<close>

subsection \<open>The sample object\<close>

lemma sample_eq:
  "sample =
     \<lparr> unitconv = 1, cfactor = 1, probeCodeCustom = [S ''G31''],
       zProbeResultVarCustom = [S ''#'', I 2002], setZZeroCustom = [S ''G92 Z0''],
       XProbeDistRequired = 10, YProbeDistRequired = 10, zwork = [F 5 (- 1 / 20)],
       zprobe = [F 3 2], zsafe = [F 3 2], zfail = [F 3 (- 1 / 10)], feedrate = [L 100],
       feedrate2nd = [], probeOn = [S ''(MSG, Attach the probe tool)\<newline>M0''],
       probeOff = [S ''(MSG, Detach the probe tool)\<newline>M0''], software = CUSTOM,
       quantization_error = 0, xoffset = 0, yoffset = 0, g01InterpolatedNum = 100,
       yProbeNum = 101, xProbeNum = 102, returnVar = [I 100], globalVar0 = [I 101],
       globalVar1 = [I 102], globalVar2 = [I 103], globalVar3 = [I 104],
       globalVar4 = [I 105], globalVar5 = [I 106], tileInfo = sample_tiles,
       initialXOffsetVar = 107, initialYOffsetVar = 108,
       callSub2 =
         [ [Lit [S ''o''], Dir 1, Lit [S '' call [''], Dir 2, Lit [S ''] [''], Dir 3,
            Lit [S '']\<newline>'']],
           [Lit [S ''G65 P''], Dir 1, Lit [S '' A''], Dir 2, Lit [S '' B''], Dir 3,
            Lit [S ''\<newline>'']],
           [Lit [S ''#'', I 101, S ''=''], Dir 2, Lit [S ''\<newline>''], Dir 4,
            Lit [S ''#'', I 102, S ''=''], Dir 3, Lit [S ''\<newline>''], Dir 4,
            Lit [S ''M98 P''], Dir 1, Lit [S ''\<newline>'']] ],
       startPointX = 0, startPointY = 0, numXPoints = 0, numYPoints = 0,
       XProbeDist = 0, YProbeDist = 0, averageProbeDist = 0, lastPoint = (0, 0) \<rparr>"
  by (simp add: sample_def new_autoleveller_def sample_options_def getUniqueCode_def
      unitconv_of_def unset_def software_of_def iequals_def to_lower_def replace_at_def)

lemma sample_fields:
  "software sample = CUSTOM" "cfactor sample = 1" "unitconv sample = 1"
  "quantization_error sample = 0" "xoffset sample = 0" "yoffset sample = 0"
  "XProbeDistRequired sample = 10" "YProbeDistRequired sample = 10"
  "tileInfo sample = sample_tiles" "feedrate sample = [L 100]" "feedrate2nd sample = []"
  "zwork sample = [F 5 (- 1 / 20)]" "zsafe sample = [F 3 2]" "zprobe sample = [F 3 2]"
  "zfail sample = [F 3 (- 1 / 10)]" "probeCodeCustom sample = [S ''G31'']"
  "zProbeResultVarCustom sample = [S ''#'', I 2002]" "setZZeroCustom sample = [S ''G92 Z0'']"
  "returnVar sample = [I 100]" "g01InterpolatedNum sample = 100"
  "lastPoint sample = (0, 0)" "numXPoints sample = 0" "numYPoints sample = 0"
  "XProbeDist sample = 0" "YProbeDist sample = 0" "averageProbeDist sample = 0"
  "startPointX sample = 0" "startPointY sample = 0"
  "probeOn sample = [S ''(MSG, Attach the probe tool)\<newline>M0'']"
  "probeOff sample = [S ''(MSG, Detach the probe tool)\<newline>M0'']"
  by (simp_all add: sample_eq)

subsection \<open>The parameter table\<close>

lemma uint32_id: "0 \<le> v \<Longrightarrow> v < 2 ^ 32 \<Longrightarrow> uint32 v = v"
  by (simp add: uint32_def)

lemma uint32_shift_inj:
  assumes "0 \<le> k" "k < 2 ^ 32" "0 \<le> k'" "k' < 2 ^ 32" "uint32 (k + c) = uint32 (k' + c)"
  shows "k = k'"
proof -
  from assms(5) have "(2 ^ 32 :: int) dvd (k + c) - (k' + c)"
    unfolding uint32_def by (simp only: mod_eq_dvd_iff)
  then have d: "(2 ^ 32 :: int) dvd k - k'" by simp
  have "\<bar>k - k'\<bar> < 2 ^ 32" using assms(1-4) by simp
  with d have "k - k' = 0" using zdvd_not_zless [of "\<bar>k - k'\<bar>" "2 ^ 32"] by fastforce
  then show ?thesis by simp
qed

lemma index_unique:
  fixes i j i' j' ny :: int
  assumes "0 \<le> j" "j < ny" "0 \<le> j'" "j' < ny" "i * ny + j = i' * ny + j'"
  shows "i = i' \<and> j = j'"
proof -
  have a: "(i * ny + j) div ny = i" using assms(1,2) by (simp add: div_pos_pos_trivial)
  have b: "(i' * ny + j') div ny = i'" using assms(3,4) by (simp add: div_pos_pos_trivial)
  have "(i * ny + j) div ny = (i' * ny + j') div ny" by (simp only: assms(5))
  then have "i = i'" by (simp only: a b)
  with assms(5) show ?thesis by simp
qed

lemma index_range:
  fixes i j nx ny :: int
  assumes "0 \<le> i" "i < nx" "0 \<le> j" "j < ny"
  shows "0 \<le> i * ny + j" and "i * ny + j < nx * ny"
proof -
  show "0 \<le> i * ny + j" using assms by simp
  have "i + 1 \<le> nx" using assms(2) by simp
  then have "(i + 1) * ny \<le> nx * ny" using assms(3,4) by (intro mult_right_mono) simp_all
  then show "i * ny + j < nx * ny" using assms(4) by (simp add: algebra_simps)
qed

lemma getVarName_inj_on:
  assumes "numXPoints a * numYPoints a \<le> 2 ^ 32"
  shows "inj_on (\<lambda>(i, j). getVarName a i j) ({0 ..< numXPoints a} \<times> {0 ..< numYPoints a})"
proof (rule inj_onI, clarify)
  fix i j i' j'
  assume r: "i \<in> {0 ..< numXPoints a}" "j \<in> {0 ..< numYPoints a}"
    "i' \<in> {0 ..< numXPoints a}" "j' \<in> {0 ..< numYPoints a}"
    and e: "getVarName a i j = getVarName a i' j'"
  from r have b: "0 \<le> i" "i < numXPoints a" "0 \<le> j" "j < numYPoints a"
    "0 \<le> i'" "i' < numXPoints a" "0 \<le> j'" "j' < numYPoints a" by simp_all
  have k: "0 \<le> i * numYPoints a + j" "i * numYPoints a + j < 2 ^ 32"
    using index_range [OF b(1-4)] assms by simp_all
  have k': "0 \<le> i' * numYPoints a + j'" "i' * numYPoints a + j' < 2 ^ 32"
    using index_range [OF b(5-8)] assms by simp_all
  from e have "uint32 (i * numYPoints a + j + 500) = uint32 (i' * numYPoints a + j' + 500)"
    by (simp add: getVarName_def)
  then have "i * numYPoints a + j = i' * numYPoints a + j'"
    by (rule uint32_shift_inj [OF k k'])
  then show "i = i' \<and> j = j'" by (rule index_unique [OF b(3,4) b(7,8)])
qed

lemma card_grid:
  "0 \<le> nx \<Longrightarrow> 0 \<le> ny \<Longrightarrow> card ({0 ..< nx} \<times> {0 ..< ny :: int}) = nat (nx * ny)"
  by (simp add: card_cartesian_product nat_mult_distrib)

lemma getVarName_exact:
  assumes "numXPoints a * numYPoints a + 500 \<le> 2 ^ 32"
    and "0 \<le> i" "i < numXPoints a" "0 \<le> j" "j < numYPoints a"
  shows "getVarName a i j = P (i * numYPoints a + j + 500)"
proof -
  have "0 \<le> i * numYPoints a + j + 500" "i * numYPoints a + j + 500 < 2 ^ 32"
    using index_range [OF assms(2-5)] assms(1) by simp_all
  then show ?thesis by (simp add: getVarName_def uint32_id)
qed

text \<open>
  C6, as amended. The table is addressed by \<open>index(i, j) = i * numYPoints + j + 500\<close>,
  computed in the arithmetic of 32 bits. On a grid with at least two points on each
  axis and at most \<open>2 ^ 32\<close> points in all, the addressing is injective on the points
  \<open>0 \<le> i < numXPoints\<close>, \<open>0 \<le> j < numYPoints\<close>: the \<open>numXPoints * numYPoints\<close> names
  are pairwise distinct. When \<open>numXPoints * numYPoints + 500\<close> is at most \<open>2 ^ 32\<close>,
  no index wraps around: each name is \<open>i * numYPoints + j + 500\<close> itself.
\<close>

theorem getVarName_injective:
  assumes "2 \<le> numXPoints a" and "2 \<le> numYPoints a"
    and "numXPoints a * numYPoints a \<le> 2 ^ 32"
  shows "inj_on (\<lambda>(i, j). getVarName a i j) ({0 ..< numXPoints a} \<times> {0 ..< numYPoints a})
       \<and> card ((\<lambda>(i, j). getVarName a i j) ` ({0 ..< numXPoints a} \<times> {0 ..< numYPoints a}))
           = nat (numXPoints a * numYPoints a)
       \<and> (numXPoints a * numYPoints a + 500 \<le> 2 ^ 32 \<longrightarrow>
            (\<forall>i j. 0 \<le> i \<and> i < numXPoints a \<and> 0 \<le> j \<and> j < numYPoints a \<longrightarrow>
                   getVarName a i j = P (i * numYPoints a + j + 500)))"
proof -
  have nn: "0 \<le> numXPoints a" "0 \<le> numYPoints a" using assms by simp_all
  have 2: "card ((\<lambda>(i, j). getVarName a i j) ` ({0 ..< numXPoints a} \<times> {0 ..< numYPoints a}))
           = nat (numXPoints a * numYPoints a)"
    using card_image [OF getVarName_inj_on [OF assms(3)]] card_grid [OF nn] by simp
  from 2 getVarName_inj_on [OF assms(3)] getVarName_exact [of a] show ?thesis by blast
qed

theorem getVarName_injective_witness:
  "2 \<le> numXPoints (sample\<lparr>numXPoints := 11, numYPoints := 9\<rparr>)
   \<and> 2 \<le> numYPoints (sample\<lparr>numXPoints := 11, numYPoints := 9\<rparr>)
   \<and> numXPoints (sample\<lparr>numXPoints := 11, numYPoints := 9\<rparr>)
       * numYPoints (sample\<lparr>numXPoints := 11, numYPoints := 9\<rparr>) \<le> 2 ^ 32
   \<and> card ((\<lambda>(i, j). getVarName (sample\<lparr>numXPoints := 11, numYPoints := 9\<rparr>) i j)
            ` ({0 ..< 11} \<times> {0 ..< 9})) = 99
   \<and> getVarName (sample\<lparr>numXPoints := 11, numYPoints := 9\<rparr>) 10 8 = P 598"
proof -
  let ?g = "sample\<lparr>numXPoints := 11, numYPoints := 9\<rparr>"
  have h: "2 \<le> numXPoints ?g" "2 \<le> numYPoints ?g" "numXPoints ?g * numYPoints ?g \<le> 2 ^ 32"
    by simp_all
  have s: "numXPoints ?g * numYPoints ?g + 500 \<le> 2 ^ 32" by simp
  have "card ((\<lambda>(i, j). getVarName ?g i j) ` ({0 ..< numXPoints ?g} \<times> {0 ..< numYPoints ?g}))
          = nat (numXPoints ?g * numYPoints ?g)"
    and "\<forall>i j. 0 \<le> i \<and> i < numXPoints ?g \<and> 0 \<le> j \<and> j < numYPoints ?g \<longrightarrow>
                   getVarName ?g i j = P (i * numYPoints ?g + j + 500)"
    using getVarName_injective [OF h] s by blast+
  then have "card ((\<lambda>(i, j). getVarName ?g i j) ` ({0 ..< 11} \<times> {0 ..< 9})) = 99"
    and "getVarName ?g 10 8 = P 598" by simp_all
  with h show ?thesis by blast
qed

text \<open>
  The claim as it was stated, for every grid, fails for the grid of 641 by 6700417
  points, which has \<open>2 ^ 32 + 1\<close> points: the index of its last point,
  \<open>(640, 6700416)\<close>, wraps around to 500, the index of the point \<open>(0, 0)\<close>.
\<close>

theorem getVarName_collision_counterexample:
  "2 \<le> numXPoints (sample\<lparr>numXPoints := 641, numYPoints := 6700417\<rparr>)
   \<and> 2 \<le> numYPoints (sample\<lparr>numXPoints := 641, numYPoints := 6700417\<rparr>)
   \<and> (0 :: int) \<le> 640 \<and> 640 < numXPoints (sample\<lparr>numXPoints := 641, numYPoints := 6700417\<rparr>)
   \<and> (0 :: int) \<le> 6700416 \<and> 6700416 < numYPoints (sample\<lparr>numXPoints := 641, numYPoints := 6700417\<rparr>)
   \<and> (640 :: int, 6700416 :: int) \<noteq> (0, 0)
   \<and> getVarName (sample\<lparr>numXPoints := 641, numYPoints := 6700417\<rparr>) 640 6700416 = P 500
   \<and> getVarName (sample\<lparr>numXPoints := 641, numYPoints := 6700417\<rparr>) 0 0 = P 500
   \<and> (641 :: int) * 6700417 = 2 ^ 32 + 1"
  by (simp add: getVarName_def uint32_def)

subsection \<open>The workarea\<close>

lemma foldl_min_Min: "foldl min (a :: real) xs = Min (set (a # xs))"
proof -
  have "(\<lambda>x s. min s x) = (min :: real \<Rightarrow> real \<Rightarrow> real)" by (intro ext) (rule min.commute)
  then show ?thesis by (simp only: Min.set_eq_fold foldl_conv_fold)
qed

lemma foldl_max_Max: "foldl max (a :: real) xs = Max (set (a # xs))"
proof -
  have "(\<lambda>x s. max s x) = (max :: real \<Rightarrow> real \<Rightarrow> real)" by (intro ext) (rule max.commute)
  then show ?thesis by (simp only: Max.set_eq_fold foldl_conv_fold)
qed

lemma foldl_first_smallest:
  fixes g :: "'a \<Rightarrow> real"
  shows "g (foldl (\<lambda>m y. if g y < g m then y else m) m xs) = foldl min (g m) (map g xs)"
  by (induction xs arbitrary: m) (simp_all add: min_def not_less)

lemma foldl_first_largest:
  fixes g :: "'a \<Rightarrow> real"
  shows "g (foldl (\<lambda>m y. if g m < g y then y else m) m xs) = foldl max (g m) (map g xs)"
  by (induction xs arbitrary: m) (simp_all add: max_def not_less)

lemma min_element_Min:
  fixes g :: "'a \<Rightarrow> real"
  assumes "path \<noteq> []"
  shows "\<exists>p. min_element (\<lambda>p q. g p < g q) path = Some p \<and> g p = Min (g ` set path)"
proof (cases path)
  case Nil
  with assms show ?thesis by simp
next
  case (Cons x xs)
  then show ?thesis
    by (simp add: foldl_first_smallest foldl_min_Min del: Min.set_eq_fold)
qed

lemma max_element_Max:
  fixes g :: "'a \<Rightarrow> real"
  assumes "path \<noteq> []"
  shows "\<exists>p. max_element (\<lambda>p q. g p < g q) path = Some p \<and> g p = Max (g ` set path)"
proof (cases path)
  case Nil
  with assms show ?thesis by simp
next
  case (Cons x xs)
  then show ?thesis
    by (simp add: foldl_first_largest foldl_max_Max)
qed

lemma Min_insert_union:
  fixes l :: real
  assumes "finite A" "A \<noteq> {}" "finite B"
  shows "Min (insert (min l (Min A)) B) = Min (insert l (A \<union> B))"
proof (cases "B = {}")
  case True
  with assms show ?thesis by simp
next
  case False
  with assms have "Min (insert l (A \<union> B)) = min l (min (Min A) (Min B))"
    by (simp add: Min.union)
  moreover from False assms have "Min (insert (min l (Min A)) B) = min (min l (Min A)) (Min B)"
    by simp
  ultimately show ?thesis by (simp add: min.assoc)
qed

lemma Max_insert_union:
  fixes l :: real
  assumes "finite A" "A \<noteq> {}" "finite B"
  shows "Max (insert (max l (Max A)) B) = Max (insert l (A \<union> B))"
proof (cases "B = {}")
  case True
  with assms show ?thesis by simp
next
  case False
  with assms have "Max (insert l (A \<union> B)) = max l (max (Max A) (Max B))"
    by (simp add: Max.union)
  moreover from False assms have "Max (insert (max l (Max A)) B) = max (max l (Max A)) (Max B)"
    by simp
  ultimately show ?thesis by (simp add: max.assoc)
qed

lemma scan_paths_step:
  assumes "path \<noteq> []"
  shows "scan_paths w (path # paths) =
     scan_paths
       ((std_min (fst (fst w)) (Fin (Min (fst ` set path))),
         std_min (snd (fst w)) (Fin (Min (snd ` set path)))),
        (std_max (fst (snd w)) (Fin (Max (fst ` set path))),
         std_max (snd (snd w)) (Fin (Max (snd ` set path)))))
       paths"
proof -
  obtain x0 where x0: "min_element (\<lambda>p q. fst p < fst q) path = Some x0" "fst x0 = Min (fst ` set path)"
    using min_element_Min [OF assms, of fst] by blast
  obtain y0 where y0: "min_element (\<lambda>p q. snd p < snd q) path = Some y0" "snd y0 = Min (snd ` set path)"
    using min_element_Min [OF assms, of snd] by blast
  obtain x1 where x1: "max_element (\<lambda>p q. fst p < fst q) path = Some x1" "fst x1 = Max (fst ` set path)"
    using max_element_Max [OF assms, of fst] by blast
  obtain y1 where y1: "max_element (\<lambda>p q. snd p < snd q) path = Some y1" "snd y1 = Max (snd ` set path)"
    using max_element_Max [OF assms, of snd] by blast
  show ?thesis by (simp add: x0 y0 x1 y1)
qed

lemma std_min_Fin: "std_min (Fin x) (Fin y) = Fin (min x y)"
  by (simp add: std_min_def min_def)

lemma std_max_Fin: "std_max (Fin x) (Fin y) = Fin (max x y)"
  by (simp add: std_max_def max_def)

lemma scan_paths_Fin:
  assumes "\<forall>path \<in> set paths. path \<noteq> []"
  shows "scan_paths ((Fin lx, Fin ly), (Fin hx, Fin hy)) paths =
     Some ((Fin (Min (insert lx (fst ` set (concat paths)))),
            Fin (Min (insert ly (snd ` set (concat paths))))),
           (Fin (Max (insert hx (fst ` set (concat paths)))),
            Fin (Max (insert hy (snd ` set (concat paths))))))"
  using assms
proof (induction paths arbitrary: lx ly hx hy)
  case Nil
  then show ?case by simp
next
  case (Cons path paths)
  then have ne: "path \<noteq> []" and rest: "\<forall>path \<in> set paths. path \<noteq> []" by simp_all
  let ?B = "set (concat paths)"
  have fin: "finite (fst ` set path)" "finite (snd ` set path)"
    "fst ` set path \<noteq> {}" "snd ` set path \<noteq> {}" "finite (fst ` ?B)" "finite (snd ` ?B)"
    using ne by simp_all
  have un: "fst ` set (concat (path # paths)) = fst ` set path \<union> fst ` ?B"
    "snd ` set (concat (path # paths)) = snd ` set path \<union> snd ` ?B"
    by (simp_all add: image_Un)
  have "scan_paths ((Fin lx, Fin ly), (Fin hx, Fin hy)) (path # paths) =
        scan_paths ((Fin (min lx (Min (fst ` set path))), Fin (min ly (Min (snd ` set path)))),
                    (Fin (max hx (Max (fst ` set path))), Fin (max hy (Max (snd ` set path))))) paths"
    by (simp only: scan_paths_step [OF ne] fst_conv snd_conv std_min_Fin std_max_Fin)
  also have "\<dots> =
     Some ((Fin (Min (insert (min lx (Min (fst ` set path))) (fst ` ?B))),
            Fin (Min (insert (min ly (Min (snd ` set path))) (snd ` ?B)))),
           (Fin (Max (insert (max hx (Max (fst ` set path))) (fst ` ?B))),
            Fin (Max (insert (max hy (Max (snd ` set path))) (snd ` ?B)))))"
    by (rule Cons.IH [OF rest])
  also have "\<dots> =
     Some ((Fin (Min (insert lx (fst ` set (concat (path # paths))))),
            Fin (Min (insert ly (snd ` set (concat (path # paths)))))),
           (Fin (Max (insert hx (fst ` set (concat (path # paths))))),
            Fin (Max (insert hy (snd ` set (concat (path # paths)))))))"
    by (simp only: un Min_insert_union [OF fin(1) fin(3) fin(5)]
        Min_insert_union [OF fin(2) fin(4) fin(6)] Max_insert_union [OF fin(1) fin(3) fin(5)]
        Max_insert_union [OF fin(2) fin(4) fin(6)])
  finally show ?case .
qed

lemma std_min_PInf: "std_min PInf (Fin y) = Fin y"
  by (simp add: std_min_def)

lemma std_max_MInf: "std_max MInf (Fin y) = Fin y"
  by (simp add: std_max_def)

lemma scan_paths_sentinel:
  assumes "\<forall>path \<in> set toolpaths. path \<noteq> []" and "toolpaths \<noteq> []"
  shows "scan_paths ((PInf, PInf), (MInf, MInf)) toolpaths =
     Some ((Fin (Min (fst ` set (concat toolpaths))), Fin (Min (snd ` set (concat toolpaths)))),
           (Fin (Max (fst ` set (concat toolpaths))), Fin (Max (snd ` set (concat toolpaths)))))"
proof (cases toolpaths)
  case Nil
  with assms show ?thesis by simp
next
  case (Cons path paths)
  with assms have ne: "path \<noteq> []" and rest: "\<forall>path \<in> set paths. path \<noteq> []" by simp_all
  let ?B = "set (concat paths)"
  have fin: "finite (fst ` set path)" "finite (snd ` set path)"
    "fst ` set path \<noteq> {}" "snd ` set path \<noteq> {}" "finite (fst ` ?B)" "finite (snd ` ?B)"
    using ne by simp_all
  have ins: "\<And>A B :: real set. finite A \<Longrightarrow> A \<noteq> {} \<Longrightarrow> finite B \<Longrightarrow>
      Min (insert (Min A) B) = Min (A \<union> B)"
      "\<And>A B :: real set. finite A \<Longrightarrow> A \<noteq> {} \<Longrightarrow> finite B \<Longrightarrow>
      Max (insert (Max A) B) = Max (A \<union> B)"
    subgoal for A B by (cases "B = {}") (simp_all add: Min.union)
    subgoal for A B by (cases "B = {}") (simp_all add: Max.union)
    done
  have "scan_paths ((PInf, PInf), (MInf, MInf)) (path # paths) =
        scan_paths ((Fin (Min (fst ` set path)), Fin (Min (snd ` set path))),
                    (Fin (Max (fst ` set path)), Fin (Max (snd ` set path)))) paths"
    by (simp only: scan_paths_step [OF ne] fst_conv snd_conv std_min_PInf std_max_MInf)
  also have "\<dots> =
     Some ((Fin (Min (insert (Min (fst ` set path)) (fst ` ?B))),
            Fin (Min (insert (Min (snd ` set path)) (snd ` ?B)))),
           (Fin (Max (insert (Max (fst ` set path)) (fst ` ?B))),
            Fin (Max (insert (Max (snd ` set path)) (snd ` ?B)))))"
    by (rule scan_paths_Fin [OF rest])
  finally show ?thesis
    using fin by (simp add: Cons ins image_Un)
qed

lemma computeWorkarea_value:
  assumes "\<forall>path \<in> set toolpaths. path \<noteq> []"
  shows "computeWorkarea a toolpaths =
     (if toolpaths = [] then Some ((PInf, PInf), (MInf, MInf))
      else Some ((Fin (Min (fst ` set (concat toolpaths)) - (xoffset a + quantization_error a)),
                  Fin (Min (snd ` set (concat toolpaths)) - (yoffset a + quantization_error a))),
                 (Fin (Max (fst ` set (concat toolpaths)) - (xoffset a - quantization_error a)),
                  Fin (Max (snd ` set (concat toolpaths)) - (yoffset a - quantization_error a)))))"
proof (cases "toolpaths = []")
  case True
  then show ?thesis by (simp add: computeWorkarea_def)
next
  case False
  with scan_paths_sentinel [OF assms] show ?thesis by (simp add: computeWorkarea_def)
qed

text \<open>
  C8. For a collection of point sequences that are all non-empty, \<open>computeWorkarea\<close>
  returns the bounding box of all the points, the near corner moved by the offset
  plus the tolerance and the far corner by the offset minus the tolerance; for the
  empty collection it returns the rectangle from plus infinity to minus infinity,
  which an offset does not move.
\<close>

theorem computeWorkarea_bounding_box:
  assumes "\<forall>path \<in> set toolpaths. path \<noteq> []"
  shows "computeWorkarea a toolpaths =
     (if toolpaths = [] then Some ((PInf, PInf), (MInf, MInf))
      else Some ((Fin (Min (fst ` set (concat toolpaths)) - (xoffset a + quantization_error a)),
                  Fin (Min (snd ` set (concat toolpaths)) - (yoffset a + quantization_error a))),
                 (Fin (Max (fst ` set (concat toolpaths)) - (xoffset a - quantization_error a)),
                  Fin (Max (snd ` set (concat toolpaths)) - (yoffset a - quantization_error a)))))"
  using assms by (rule computeWorkarea_value)

theorem computeWorkarea_bounding_box_witness:
  "[(0, 0), (100, 80 :: real)] \<noteq> [] \<and> [(20, 30 :: real)] \<noteq> []
   \<and> computeWorkarea (sample\<lparr>quantization_error := 1 / 4\<rparr>) [[(0, 0), (100, 80)], [(20, 30)]]
       = Some ((Fin (- 1 / 4), Fin (- 1 / 4)), (Fin (401 / 4), Fin (321 / 4)))"
  using computeWorkarea_bounding_box
    [of "[[(0, 0), (100, 80)], [(20, 30)]]" "sample\<lparr>quantization_error := 1 / 4\<rparr>"]
  by (simp add: sample_fields)

subsection \<open>The planner of the grid\<close>

lemma prepareWorkarea_SomeD:
  assumes "prepareWorkarea a toolpaths = Some (ok, a')"
  obtains x0 y0 x1 y1 tempX tempY nx ny where
    "computeWorkarea a toolpaths = Some ((Fin x0, Fin y0), (Fin x1, Fin y1))"
    "XProbeDistRequired a \<noteq> 0" "YProbeDistRequired a \<noteq> 0"
    "tempX = c_round (workareaLenX a x0 x1 / XProbeDistRequired a)"
    "tempY = c_round (workareaLenY a y0 y1 / YProbeDistRequired a)"
    "nx = (if tempX > 1 then tempX + 1 else 2)"
    "ny = (if tempY > 1 then tempY + 1 else 2)"
    "2 \<le> nx" "nx < 2 ^ 31" "2 \<le> ny" "ny < 2 ^ 31"
    "ok = (\<not> ((software a = LINUXCNC \<and> uint32 (nx * ny) > 4501)
                 \<or> (software a \<noteq> LINUXCNC \<and> uint32 (nx * ny) > 500)))"
    "a' = a\<lparr> startPointX := x0 * cfactor a,
                    startPointY := y0 * cfactor a,
                    numXPoints := nx,
                    numYPoints := ny,
                    XProbeDist := workareaLenX a x0 x1 / of_int (nx - 1),
                    YProbeDist := workareaLenY a y0 y1 / of_int (ny - 1),
                    averageProbeDist := (workareaLenX a x0 x1 / of_int (nx - 1) + workareaLenY a y0 y1 / of_int (ny - 1)) / 2 \<rparr>"
proof -
  from assms obtain w where w: "computeWorkarea a toolpaths = Some w"
    by (auto simp: prepareWorkarea_def split: bind_splits)
  obtain e0 f0 e1 f1 where wd: "w = ((e0, f0), (e1, f1))" by (metis prod.collapse)
  from assms w wd obtain x0 y0 x1 y1 where fin: "e0 = Fin x0" "f0 = Fin y0" "e1 = Fin x1" "f1 = Fin y1"
    by (cases e0; cases f0; cases e1; cases f1) (auto simp: prepareWorkarea_def)
  show thesis
    using assms w wd fin that [of x0 y0 x1 y1]
    by (auto simp: prepareWorkarea_def Let_def to_int_def split: bind_splits if_splits)
qed

text \<open>The runs of \<open>prepareWorkarea\<close> that C++ defines: it returns whenever the conversions fit.\<close>

lemma prepareWorkarea_returns:
  assumes "toolpaths \<noteq> []" and "\<forall>path \<in> set toolpaths. path \<noteq> []"
    and "XProbeDistRequired a \<noteq> 0" and "YProbeDistRequired a \<noteq> 0"
    and "x0 = Min (fst ` set (concat toolpaths)) - (xoffset a + quantization_error a)"
    and "y0 = Min (snd ` set (concat toolpaths)) - (yoffset a + quantization_error a)"
    and "x1 = Max (fst ` set (concat toolpaths)) - (xoffset a - quantization_error a)"
    and "y1 = Max (snd ` set (concat toolpaths)) - (yoffset a - quantization_error a)"
    and "tempX = c_round (workareaLenX a x0 x1 / XProbeDistRequired a)"
    and "tempY = c_round (workareaLenY a y0 y1 / YProbeDistRequired a)"
    and "- (2 ^ 31) \<le> tempX" and "tempX < 2 ^ 31 - 1"
    and "- (2 ^ 31) \<le> tempY" and "tempY < 2 ^ 31 - 1"
  shows "\<exists>ok a'. prepareWorkarea a toolpaths = Some (ok, a')"
proof -
  have w: "computeWorkarea a toolpaths = Some ((Fin x0, Fin y0), (Fin x1, Fin y1))"
    using computeWorkarea_value [OF assms(2), of a] assms(1,5-8) by simp
  define nx where "nx = (if tempX > 1 then tempX + 1 else 2)"
  define ny where "ny = (if tempY > 1 then tempY + 1 else 2)"
  have r: "2 \<le> nx" "nx < 2 ^ 31" "2 \<le> ny" "ny < 2 ^ 31"
    using assms(12,14) by (simp_all add: nx_def ny_def)
  have t: "to_int tempX = Some tempX" "to_int tempY = Some tempY"
    using assms(11-14) by (simp_all add: to_int_def)
  have n: "to_int nx = Some nx" "to_int ny = Some ny" using r by (simp_all add: to_int_def)
  have sx: "(if tempX > 1 then to_int (tempX + 1) else Some 2) = Some nx"
    using n(1) by (simp add: nx_def split: if_splits)
  have sy: "(if tempY > 1 then to_int (tempY + 1) else Some 2) = Some ny"
    using n(2) by (simp add: ny_def split: if_splits)
  show ?thesis
    unfolding prepareWorkarea_def
    by (simp only: w bind.bind_lunit fst_conv snd_conv finite_part.simps Let_def assms(3,4)
        if_False assms(9,10) [symmetric] t sx sy) blast
qed

text \<open>
  The gate compares the product of 32 bits with the ceiling of the dialect. As long
  as the grid has fewer than \<open>2 ^ 32\<close> points, that product is the number of points,
  and \<open>prepareWorkarea\<close> returns failure exactly when the number of points exceeds
  the ceiling, 4501 for LinuxCNC and 500 for every other dialect; a number equal to
  the ceiling succeeds, and the grid stored on failure is the planned one.
\<close>

lemma prepareWorkarea_gate_wrapped:
  assumes "prepareWorkarea a toolpaths = Some (ok, a')"
  shows "(\<not> ok) = (uint32 (numXPoints a' * numYPoints a')
                      > (if software a = LINUXCNC then 4501 else 500))"
  using assms by (elim prepareWorkarea_SomeD) (simp split: if_splits)

lemma prepareWorkarea_gate_in_range:
  assumes "prepareWorkarea a toolpaths = Some (ok, a')"
    and "numXPoints a' * numYPoints a' < 2 ^ 32"
  shows "(\<not> ok) = (numXPoints a' * numYPoints a' > (if software a = LINUXCNC then 4501 else 500))"
    and "numXPoints a' * numYPoints a' = (if software a = LINUXCNC then 4501 else 500) \<Longrightarrow> ok"
proof -
  from assms(1) have "0 \<le> numXPoints a' * numYPoints a'"
    by (elim prepareWorkarea_SomeD) simp
  then have u: "uint32 (numXPoints a' * numYPoints a') = numXPoints a' * numYPoints a'"
    using assms(2) by (rule uint32_id)
  show g: "(\<not> ok) = (numXPoints a' * numYPoints a' > (if software a = LINUXCNC then 4501 else 500))"
    using prepareWorkarea_gate_wrapped [OF assms(1)] by (simp only: u)
  show "ok" if "numXPoints a' * numYPoints a' = (if software a = LINUXCNC then 4501 else 500)"
    using g that by simp
qed

lemma prepareWorkarea_sample_linuxcnc:
  "prepareWorkarea (sample\<lparr>software := LINUXCNC, XProbeDistRequired := 1, YProbeDistRequired := 1\<rparr>)
       [[(0, 0), (6, 642)]]
     = Some (True, sample\<lparr>software := LINUXCNC, XProbeDistRequired := 1, YProbeDistRequired := 1,
                startPointX := 0, startPointY := 0, numXPoints := 7, numYPoints := 643,
                XProbeDist := 1, YProbeDist := 1, averageProbeDist := 1\<rparr>)"
  by (simp add: prepareWorkarea_def computeWorkarea_def sample_fields std_min_def std_max_def
      workareaLenX_def workareaLenY_def sample_tiles_def c_round_def to_int_def uint32_def)

lemma prepareWorkarea_gate_boundary:
  "prepareWorkarea (sample\<lparr>software := LINUXCNC, XProbeDistRequired := 1, YProbeDistRequired := 1\<rparr>)
       [[(0, 0), (6, 642)]]
     = Some (True, sample\<lparr>software := LINUXCNC, XProbeDistRequired := 1, YProbeDistRequired := 1,
                startPointX := 0, startPointY := 0, numXPoints := 7, numYPoints := 643,
                XProbeDist := 1, YProbeDist := 1, averageProbeDist := 1\<rparr>)
   \<and> (\<not> True) = ((7 :: int) * 643 > 4501)"
  using prepareWorkarea_gate_in_range(1) [OF prepareWorkarea_sample_linuxcnc]
    prepareWorkarea_sample_linuxcnc
  by simp

text \<open>
  C1. The claim promises a failure for every grid whose number of points exceeds the
  ceiling of the dialect. For a LinuxCNC workarea of 65535 by 65535 with a required
  distance of 1 the planner stores a grid of 65536 by 65536 points; the product of
  32 bits is 0, and \<open>prepareWorkarea\<close> returns success for a grid of \<open>2 ^ 32\<close> points.
  For the custom dialect a workarea of 640 by 6700416 gives a grid of 641 by 6700417
  points, \<open>2 ^ 32 + 1\<close> in all; the product of 32 bits is 1, and the grid is accepted
  as well.
\<close>

theorem prepareWorkarea_gate_overflow:
  "prepareWorkarea (sample\<lparr>software := LINUXCNC, XProbeDistRequired := 1, YProbeDistRequired := 1\<rparr>)
       [[(0, 0), (65535, 65535)]]
     = Some (True, sample\<lparr>software := LINUXCNC, XProbeDistRequired := 1, YProbeDistRequired := 1,
                startPointX := 0, startPointY := 0, numXPoints := 65536, numYPoints := 65536,
                XProbeDist := 1, YProbeDist := 1, averageProbeDist := 1\<rparr>)
   \<and> (65536 :: int) * 65536 = 2 ^ 32
   \<and> (4501 :: int) < 65536 * 65536
   \<and> uint32 (65536 * 65536) = 0
   \<and> prepareWorkarea (sample\<lparr>XProbeDistRequired := 1, YProbeDistRequired := 1\<rparr>)
       [[(0, 0), (640, 6700416)]]
     = Some (True, sample\<lparr>XProbeDistRequired := 1, YProbeDistRequired := 1,
                startPointX := 0, startPointY := 0, numXPoints := 641, numYPoints := 6700417,
                XProbeDist := 1, YProbeDist := 1, averageProbeDist := 1\<rparr>)
   \<and> software sample = CUSTOM
   \<and> (641 :: int) * 6700417 = 2 ^ 32 + 1
   \<and> (500 :: int) < 641 * 6700417
   \<and> uint32 (641 * 6700417) = 1"
proof -
  have 1: "prepareWorkarea (sample\<lparr>software := LINUXCNC, XProbeDistRequired := 1, YProbeDistRequired := 1\<rparr>)
       [[(0, 0), (65535, 65535)]]
     = Some (True, sample\<lparr>software := LINUXCNC, XProbeDistRequired := 1, YProbeDistRequired := 1,
                startPointX := 0, startPointY := 0, numXPoints := 65536, numYPoints := 65536,
                XProbeDist := 1, YProbeDist := 1, averageProbeDist := 1\<rparr>)"
    by (simp add: prepareWorkarea_def computeWorkarea_def sample_fields std_min_def std_max_def
        workareaLenX_def workareaLenY_def sample_tiles_def c_round_def to_int_def uint32_def)
  have 2: "prepareWorkarea (sample\<lparr>XProbeDistRequired := 1, YProbeDistRequired := 1\<rparr>)
       [[(0, 0), (640, 6700416)]]
     = Some (True, sample\<lparr>XProbeDistRequired := 1, YProbeDistRequired := 1,
                startPointX := 0, startPointY := 0, numXPoints := 641, numYPoints := 6700417,
                XProbeDist := 1, YProbeDist := 1, averageProbeDist := 1\<rparr>)"
    by (simp add: prepareWorkarea_def computeWorkarea_def sample_fields std_min_def std_max_def
        workareaLenX_def workareaLenY_def sample_tiles_def c_round_def to_int_def uint32_def)
  have 3: "(65536 :: int) * 65536 = 2 ^ 32" "(4501 :: int) < 65536 * 65536"
    "uint32 (65536 * 65536) = 0" "(641 :: int) * 6700417 = 2 ^ 32 + 1"
    "(500 :: int) < 641 * 6700417" "uint32 (641 * 6700417) = 1"
    by (simp_all add: uint32_def)
  have 4: "software sample = CUSTOM" by (simp add: sample_fields)
  from 1 2 3 4 show ?thesis by blast
qed

text \<open>
  C2. Whenever \<open>prepareWorkarea\<close> returns, then on each axis, with \<open>n\<close> the rounded
  quotient of the span of the workarea by the required distance, the number of
  points is \<open>n + 1\<close> when \<open>n > 1\<close> and 2 otherwise, hence at least 2; the distance
  between probes is the span divided by the number of points minus one, and
  multiplied by that number it gives the span back. A span of 100 by 80 with a
  required distance of 10 by 10 gives 11 by 9 points, 10 apart on both axes.
\<close>

theorem prepareWorkarea_grid:
  assumes "prepareWorkarea a toolpaths = Some (ok, a')"
  shows "\<exists>x0 y0 x1 y1.
      computeWorkarea a toolpaths = Some ((Fin x0, Fin y0), (Fin x1, Fin y1))
    \<and> (let spanX = workareaLenX a x0 x1;
            spanY = workareaLenY a y0 y1;
            nX = c_round (spanX / XProbeDistRequired a);
            nY = c_round (spanY / YProbeDistRequired a)
        in numXPoints a' = (if nX > 1 then nX + 1 else 2)
         \<and> numYPoints a' = (if nY > 1 then nY + 1 else 2)
         \<and> 2 \<le> numXPoints a' \<and> 2 \<le> numYPoints a'
         \<and> XProbeDist a' = spanX / of_int (numXPoints a' - 1)
         \<and> YProbeDist a' = spanY / of_int (numYPoints a' - 1)
         \<and> XProbeDist a' * of_int (numXPoints a' - 1) = spanX
         \<and> YProbeDist a' * of_int (numYPoints a' - 1) = spanY
         \<and> (spanX = 100 \<and> spanY = 80 \<and> XProbeDistRequired a = 10 \<and> YProbeDistRequired a = 10
              \<longrightarrow> numXPoints a' = 11 \<and> numYPoints a' = 9
                \<and> XProbeDist a' = 10 \<and> YProbeDist a' = 10))"
proof -
  from assms obtain x0 y0 x1 y1 tempX tempY nx ny where
    w: "computeWorkarea a toolpaths = Some ((Fin x0, Fin y0), (Fin x1, Fin y1))"
    and tx: "tempX = c_round (workareaLenX a x0 x1 / XProbeDistRequired a)"
    and ty: "tempY = c_round (workareaLenY a y0 y1 / YProbeDistRequired a)"
    and nx: "nx = (if tempX > 1 then tempX + 1 else 2)"
    and ny: "ny = (if tempY > 1 then tempY + 1 else 2)"
    and a': "a' = a\<lparr> startPointX := x0 * cfactor a,
                    startPointY := y0 * cfactor a,
                    numXPoints := nx,
                    numYPoints := ny,
                    XProbeDist := workareaLenX a x0 x1 / of_int (nx - 1),
                    YProbeDist := workareaLenY a y0 y1 / of_int (ny - 1),
                    averageProbeDist := (workareaLenX a x0 x1 / of_int (nx - 1) + workareaLenY a y0 y1 / of_int (ny - 1)) / 2 \<rparr>"
    by (rule prepareWorkarea_SomeD)
  have ge: "2 \<le> nx" "2 \<le> ny" using nx ny by (simp_all split: if_splits)
  have fields: "numXPoints a' = nx" "numYPoints a' = ny"
    "XProbeDist a' = workareaLenX a x0 x1 / of_int (nx - 1)"
    "YProbeDist a' = workareaLenY a y0 y1 / of_int (ny - 1)"
    by (simp_all add: a')
  have r10: "c_round (100 / 10) = 10" "c_round (80 / 10) = 8" by (simp_all add: c_round_def)
  have scen: "workareaLenX a x0 x1 = 100 \<Longrightarrow> workareaLenY a y0 y1 = 80 \<Longrightarrow>
     XProbeDistRequired a = 10 \<Longrightarrow> YProbeDistRequired a = 10 \<Longrightarrow>
     nx = 11 \<and> ny = 9 \<and> workareaLenX a x0 x1 / of_int (nx - 1) = 10
      \<and> workareaLenY a y0 y1 / of_int (ny - 1) = 10"
    using nx ny tx ty r10 by simp
  show ?thesis
    apply (intro exI conjI)
     apply (rule w)
    using ge scen
    apply (simp add: Let_def fields del: of_int_diff)
    apply (simp add: nx ny tx ty)
    done
qed

lemma prepareWorkarea_sample_scenario:
  "prepareWorkarea sample [[(0, 0), (100, 80)]]
     = Some (True, sample\<lparr>startPointX := 0, startPointY := 0, numXPoints := 11, numYPoints := 9,
                XProbeDist := 10, YProbeDist := 10, averageProbeDist := 10\<rparr>)"
  by (simp add: prepareWorkarea_def computeWorkarea_def sample_fields std_min_def std_max_def
      workareaLenX_def workareaLenY_def sample_tiles_def c_round_def to_int_def uint32_def)

theorem prepareWorkarea_grid_witness:
  "prepareWorkarea sample [[(0, 0), (100, 80)]]
     = Some (True, sample\<lparr>startPointX := 0, startPointY := 0, numXPoints := 11, numYPoints := 9,
                XProbeDist := 10, YProbeDist := 10, averageProbeDist := 10\<rparr>)
   \<and> (\<exists>x0 y0 x1 y1. computeWorkarea sample [[(0, 0), (100, 80)]]
          = Some ((Fin x0, Fin y0), (Fin x1, Fin y1))
        \<and> workareaLenX sample x0 x1 = 100 \<and> workareaLenY sample y0 y1 = 80)"
proof -
  have "\<exists>x0 y0 x1 y1. computeWorkarea sample [[(0, 0), (100, 80)]]
          = Some ((Fin x0, Fin y0), (Fin x1, Fin y1))
        \<and> 10 * of_int (11 - 1) = workareaLenX sample x0 x1
        \<and> 10 * of_int (9 - 1) = workareaLenY sample y0 y1"
    using prepareWorkarea_grid [OF prepareWorkarea_sample_scenario]
    by (simp add: Let_def del: of_int_diff) blast
  then show ?thesis using prepareWorkarea_sample_scenario by simp
qed

subsection \<open>The number of sub-segments\<close>






lemma numOfSubsegments_returns:
  assumes "0 < step_size a point"
    and "distance (lastPoint a) point / step_size a point \<le> 2 ^ 32 - 1"
  shows "\<exists>n. numOfSubsegments a point = Some n"
proof -
  let ?q = "distance (lastPoint a) point / step_size a point"
  have "0 \<le> ?q" using assms(1) by (simp add: distance_def)
  then have lo: "0 \<le> \<lceil>?q\<rceil>" by (simp add: ceiling_le_iff [symmetric] le_ceiling_iff)
  have "\<lceil>?q\<rceil> \<le> 2 ^ 32 - 1" using assms(2) by (simp add: ceiling_le_iff)
  then have hi: "\<lceil>?q\<rceil> < 2 ^ 32" by simp
  have "numOfSubsegments a point = ceil_quotient (distance (lastPoint a) point) (step_size a point)"
    by (simp add: numOfSubsegments_def step_size_def)
  then show ?thesis using assms(1) lo hi by (simp add: ceil_quotient_def to_uint_def)
qed




subsection \<open>Splitting a segment\<close>

lemma unat_succ:
  fixes i n :: "32 word"
  assumes "i \<le> n" "n \<noteq> - 1"
  shows "unat (i + 1) = Suc (unat i)"
proof -
  have "i \<noteq> - 1" using assms by (metis word_n1_ge antisym)
  then have "1 + i \<noteq> 0" by (metis add.commute add_eq_0_iff)
  then show ?thesis by (metis unatSuc add.commute)
qed

lemma splitSegment_for_run:
  fixes i n :: "32 word"
  assumes "n \<noteq> - 1" and "unat i \<le> Suc (unat n)"
  shows "splitSegment_for a point n i acc =
     Some (acc @ map (\<lambda>k. split_point a point n (of_nat k)) [unat i ..< Suc (unat n)])"
  using assms(2)
proof (induction "Suc (unat n) - unat i" arbitrary: i acc)
  case 0
  then have "unat i = Suc (unat n)" by simp
  then have "\<not> i \<le> n" by (simp add: word_le_nat_alt)
  then show ?case using \<open>unat i = Suc (unat n)\<close>
    by (subst splitSegment_for.simps) simp
next
  case (Suc d)
  then have le: "i \<le> n" by (simp add: word_le_nat_alt)
  have u: "unat (i + 1) = Suc (unat i)" by (rule unat_succ [OF le assms(1)])
  have d: "d = Suc (unat n) - unat (i + 1)" using Suc.hyps(2) u by simp
  have b: "unat (i + 1) \<le> Suc (unat n)" using le u by (simp add: word_le_nat_alt)
  have l: "[unat i ..< Suc (unat n)] = unat i # [unat (i + 1) ..< Suc (unat n)]"
    using le u by (simp add: word_le_nat_alt upt_conv_Cons)
  show ?case
    using le by (subst splitSegment_for.simps) (simp add: Suc.hyps(1) [OF d b] l del: upt_Suc)
qed

lemma splitSegment_points:
  assumes "n \<noteq> - 1"
  shows "splitSegment a point n =
     Some (map (\<lambda>k. split_point a point n (of_nat k)) [1 ..< Suc (unat n)])"
  using splitSegment_for_run [OF assms, of 1 a point "[]"] by (simp add: splitSegment_def)

lemma splitSegment_for_max:
  assumes "splitSegment_for a point n i acc = Some y"
  shows "n \<noteq> - 1"
  by (rule splitSegment_for.raw_induct [where P = "\<lambda>a point n i acc y. n \<noteq> - 1", OF _ assms])
    (auto split: if_splits)

lemma splitSegment_never_returns: "splitSegment a point (- 1) = None"
  using splitSegment_for_max [of a point "- 1" 1 "[]"]
  by (cases "splitSegment a point (- 1)") (auto simp: splitSegment_def)

lemma split_point_of_nat:
  assumes "k \<le> unat n"
  shows "split_point a point n (of_nat k) =
     (fst (lastPoint a) + (fst point - fst (lastPoint a)) * real k / real (unat n),
      snd (lastPoint a) + (snd point - snd (lastPoint a)) * real k / real (unat n))"
proof -
  have "k < 2 ^ 32" using assms unsigned_less [of n, where ?'a = nat] by simp
  then have "unat (of_nat k :: 32 word) = k" by (simp add: unsigned_of_nat take_bit_nat_eq_self)
  then show ?thesis by (simp add: split_point_def)
qed

lemma splitSegment_spec:
  assumes "n \<noteq> - 1" and "1 \<le> unat n"
  shows "\<exists>pts. splitSegment a point n = Some pts
      \<and> length pts = unat n
      \<and> (\<forall>k. 1 \<le> k \<and> k \<le> unat n \<longrightarrow>
            pts ! (k - 1) =
              (fst (lastPoint a) + (fst point - fst (lastPoint a)) * real k / real (unat n),
               snd (lastPoint a) + (snd point - snd (lastPoint a)) * real k / real (unat n)))
      \<and> last pts = point
      \<and> (n = 1 \<longrightarrow> pts = [point])"
proof -
  let ?pts = "map (\<lambda>k. split_point a point n (of_nat k)) [1 ..< Suc (unat n)]"
  have "0 < unat n" using assms(2) by simp
  then have nz: "real (unat n) \<noteq> 0" by (simp only: of_nat_0_less_iff [symmetric, where ?'a = real])
  have 1: "splitSegment a point n = Some ?pts" by (rule splitSegment_points [OF assms(1)])
  have 2: "length ?pts = unat n" by simp
  have 3: "?pts ! (k - 1) =
              (fst (lastPoint a) + (fst point - fst (lastPoint a)) * real k / real (unat n),
               snd (lastPoint a) + (snd point - snd (lastPoint a)) * real k / real (unat n))"
    if "1 \<le> k" "k \<le> unat n" for k
  proof -
    have "[1 ..< Suc (unat n)] ! (k - 1) = k"
      using that by (simp del: upt_Suc)
    then have "?pts ! (k - 1) = split_point a point n (of_nat k)"
      using that by (simp del: upt_Suc)
    then show ?thesis by (simp add: split_point_of_nat [OF that(2)])
  qed
  have ne: "?pts \<noteq> []" using assms(2) by (simp del: upt_Suc)
  have "last ?pts = ?pts ! (length ?pts - 1)" by (rule last_conv_nth [OF ne])
  also have "\<dots> = ?pts ! (unat n - 1)" by (simp only: 2)
  also have "\<dots> = (fst (lastPoint a) + (fst point - fst (lastPoint a)) * real (unat n) / real (unat n),
               snd (lastPoint a) + (snd point - snd (lastPoint a)) * real (unat n) / real (unat n))"
    by (rule 3 [OF assms(2) order_refl])
  also have "\<dots> = point" using nz by simp
  finally have 4: "last ?pts = point" .
  have 5: "?pts = [point]" if "n = 1"
  proof -
    from that have "unat n = 1" by simp
    then have "?pts = [last ?pts]" by simp
    with 4 show ?thesis by simp
  qed
  show ?thesis
  proof (intro exI conjI allI impI)
    show "splitSegment a point n = Some ?pts" by (rule 1)
    show "length ?pts = unat n" by (rule 2)
    show "last ?pts = point" by (rule 4)
    show "?pts = [point]" if "n = 1" by (rule 5 [OF that])
    show "?pts ! (k - 1) =
              (fst (lastPoint a) + (fst point - fst (lastPoint a)) * real k / real (unat n),
               snd (lastPoint a) + (snd point - snd (lastPoint a)) * real k / real (unat n))"
      if "1 \<le> k \<and> k \<le> unat n" for k
      using that by (intro 3) simp_all
  qed
qed

lemma splitSegment_equidistant:
  assumes "n \<noteq> - 1" and "1 \<le> k" and "k < unat n"
    and "splitSegment a point n = Some pts"
  shows "fst (pts ! k) - fst (pts ! (k - 1)) = (fst point - fst (lastPoint a)) / real (unat n)"
    and "snd (pts ! k) - snd (pts ! (k - 1)) = (snd point - snd (lastPoint a)) / real (unat n)"
proof -
  from splitSegment_spec [OF assms(1), of a point] assms(2,3,4)
  have p: "\<forall>k. 1 \<le> k \<and> k \<le> unat n \<longrightarrow>
            pts ! (k - 1) =
              (fst (lastPoint a) + (fst point - fst (lastPoint a)) * real k / real (unat n),
               snd (lastPoint a) + (snd point - snd (lastPoint a)) * real k / real (unat n))"
    by auto
  have a: "pts ! (k - 1) =
              (fst (lastPoint a) + (fst point - fst (lastPoint a)) * real k / real (unat n),
               snd (lastPoint a) + (snd point - snd (lastPoint a)) * real k / real (unat n))"
    using p assms(2,3) by simp
  have b: "pts ! k =
              (fst (lastPoint a) + (fst point - fst (lastPoint a)) * real (Suc k) / real (unat n),
               snd (lastPoint a) + (snd point - snd (lastPoint a)) * real (Suc k) / real (unat n))"
    using p [rule_format, of "Suc k"] assms(3) by simp
  show "fst (pts ! k) - fst (pts ! (k - 1)) = (fst point - fst (lastPoint a)) / real (unat n)"
    unfolding a b fst_conv by (simp add: diff_divide_distrib [symmetric] algebra_simps)
  show "snd (pts ! k) - snd (pts ! (k - 1)) = (snd point - snd (lastPoint a)) / real (unat n)"
    unfolding a b snd_conv by (simp add: diff_divide_distrib [symmetric] algebra_simps)
qed

text \<open>
  C7. The claim promises \<open>n\<close> points for every \<open>n \<ge> 1\<close>. For every \<open>n\<close> below
  \<open>2 ^ 32 - 1\<close> the function returns them (\<open>splitSegment_spec\<close>,
  \<open>splitSegment_equidistant\<close>). For \<open>n = 4294967295\<close>, the largest \<open>unsigned int\<close>,
  the condition \<open>i <= n\<close> of the loop holds for every \<open>i\<close>, the counter wraps around
  to zero, and the function never returns. \<open>addChainPoint\<close> passes this count for a
  move of 4294967295 units along Y over a Y spacing of 1.
\<close>

theorem splitSegment_largest_count:
  "unat (- 1 :: 32 word) = 4294967295
   \<and> splitSegment sample (10, 0) (- 1) = None
   \<and> numOfSubsegments (sample\<lparr>YProbeDist := 1\<rparr>) (0, 4294967295) = Some (- 1)
   \<and> addChainPoint (sample\<lparr>YProbeDist := 1\<rparr>) (0, 4294967295) = None"
proof -
  have 1: "unat (- 1 :: 32 word) = 4294967295"
    by (simp add: unsigned_minus_1_eq_mask mask_eq_exp_minus_1)
  have 2: "numOfSubsegments (sample\<lparr>YProbeDist := 1\<rparr>) (0, 4294967295) = Some (- 1)"
    by (simp add: numOfSubsegments_def ceil_quotient_def to_uint_def distance_def sample_fields)
  have 3: "addChainPoint (sample\<lparr>YProbeDist := 1\<rparr>) (0, 4294967295) = None"
    by (simp add: addChainPoint_def 2 splitSegment_never_returns)
  from 1 2 3 splitSegment_never_returns show ?thesis by blast
qed

subsection \<open>The interpolation at a vertex\<close>

lemma interpolation_text:
  "bformat interpolate_format [[P v1], [P v2], [P v3], [P v4], [D yr], [D xr]] =
     [P 1, S ''='', S ''['', P v3, S ''+'', S ''['', P v1, S ''-'', P v3, S '']'', S ''*'', F 5 yr, S '']'', endl,
      P 2, S ''='', S ''['', P v4, S ''+'', S ''['', P v2, S ''-'', P v4, S '']'', S ''*'', F 5 yr, S '']'', endl,
      P 3, S ''='', S ''['', P 1, S ''+'', S ''['', P 2, S ''-'', P 1, S '']'', S ''*'', F 5 xr, S '']'', endl]"
  by (simp add: bformat_def interpolate_format_def)

lemma linear_line:
  "assignment \<sigma> [P n, S ''='', S ''['', P u, S ''+'', S ''['', P v, S ''-'', P u, S '']'', S ''*'', F 5 r, S '']'']
     = Some (\<sigma>(n := \<sigma> u + (\<sigma> v - \<sigma> u) * printed 5 r))"
  by simp

lemma interpolation_lines:
  "lines_of []
     [P 1, S ''='', S ''['', P v3, S ''+'', S ''['', P v1, S ''-'', P v3, S '']'', S ''*'', F 5 yr, S '']'', endl,
      P 2, S ''='', S ''['', P v4, S ''+'', S ''['', P v2, S ''-'', P v4, S '']'', S ''*'', F 5 yr, S '']'', endl,
      P 3, S ''='', S ''['', P 1, S ''+'', S ''['', P 2, S ''-'', P 1, S '']'', S ''*'', F 5 xr, S '']'', endl]
   = [[P 1, S ''='', S ''['', P v3, S ''+'', S ''['', P v1, S ''-'', P v3, S '']'', S ''*'', F 5 yr, S '']''],
      [P 2, S ''='', S ''['', P v4, S ''+'', S ''['', P v2, S ''-'', P v4, S '']'', S ''*'', F 5 yr, S '']''],
      [P 3, S ''='', S ''['', P 1, S ''+'', S ''['', P 2, S ''-'', P 1, S '']'', S ''*'', F 5 xr, S '']'']]"
  by simp

lemma printed_zero: "printed d 0 = 0"
  by (simp add: printed_def round_half_even_def)

lemma run_interpolation:
  "run_assignments (bformat interpolate_format [[P v1], [P v2], [P v3], [P v4], [D yr], [D xr]]) \<sigma> =
     (let \<sigma>1 = \<sigma>(1 := \<sigma> v3 + (\<sigma> v1 - \<sigma> v3) * printed 5 yr);
          \<sigma>2 = \<sigma>1(2 := \<sigma>1 v4 + (\<sigma>1 v2 - \<sigma>1 v4) * printed 5 yr)
      in Some (\<sigma>2(3 := \<sigma>2 1 + (\<sigma>2 2 - \<sigma>2 1) * printed 5 xr)))"
  unfolding run_assignments_def interpolation_text interpolation_lines
  by (simp only: assignments.simps linear_line option.case Let_def)

text \<open>A vertex of the grid has the fractional offsets zero.\<close>

lemma grid_vertex:
  assumes "XProbeDist a \<noteq> 0" and "YProbeDist a \<noteq> 0"
    and "- (2 ^ 31) \<le> i" and "i < 2 ^ 31" and "- (2 ^ 31) \<le> j" and "j < 2 ^ 31"
    and "point = (startPointX a + of_int i * XProbeDist a, startPointY a + of_int j * YProbeDist a)"
  shows "xminindex a point = Some i" and "yminindex a point = Some j"
    and "x_minus_x0_rel a point i = 0" and "y_minus_y0_rel a point j = 0"
  using assms
  by (simp_all add: xminindex_def yminindex_def x_minus_x0_rel_def y_minus_y0_rel_def to_int_def)

text \<open>
  C5. For a point whose two fractional offsets, as \<open>interpolatePoint\<close> computes
  them, are zero, the three assignments that \<open>interpolatePoint\<close> emits leave in
  parameter 3 the value that the table holds for the vertex
  \<open>(xminindex, yminindex)\<close>, whatever the parameters hold.
\<close>

theorem interpolatePoint_vertex:
  assumes "xminindex a point = Some xi" and "yminindex a point = Some yi"
    and "x_minus_x0_rel a point xi = 0" and "y_minus_y0_rel a point yi = 0"
  shows "\<exists>t \<sigma>'. interpolatePoint a point = Some t
           \<and> run_assignments t \<sigma> = Some \<sigma>'
           \<and> \<sigma>' 3 = \<sigma> (uint32 (xi * numYPoints a + yi + 500))
           \<and> getVarName a xi yi = P (uint32 (xi * numYPoints a + yi + 500))"
  using assms
  by (simp add: interpolatePoint_def getVarName_def run_interpolation printed_zero Let_def)

lemma interpolatePoint_sample:
  "xminindex (sample\<lparr>numXPoints := 11, numYPoints := 9, XProbeDist := 10, YProbeDist := 10\<rparr>) (20, 30) = Some 2"
  "yminindex (sample\<lparr>numXPoints := 11, numYPoints := 9, XProbeDist := 10, YProbeDist := 10\<rparr>) (20, 30) = Some 3"
  "x_minus_x0_rel (sample\<lparr>numXPoints := 11, numYPoints := 9, XProbeDist := 10, YProbeDist := 10\<rparr>) (20, 30) 2 = 0"
  "y_minus_y0_rel (sample\<lparr>numXPoints := 11, numYPoints := 9, XProbeDist := 10, YProbeDist := 10\<rparr>) (20, 30) 3 = 0"
  by (simp_all add: xminindex_def yminindex_def x_minus_x0_rel_def y_minus_y0_rel_def
      sample_fields to_int_def)

theorem interpolatePoint_vertex_witness:
  "\<exists>t \<sigma>'. interpolatePoint (sample\<lparr>numXPoints := 11, numYPoints := 9, XProbeDist := 10, YProbeDist := 10\<rparr>) (20, 30) = Some t
        \<and> run_assignments t (\<lambda>n. of_int n) = Some \<sigma>' \<and> \<sigma>' 3 = 521"
  using interpolatePoint_vertex [OF interpolatePoint_sample, of "\<lambda>n. of_int n"]
  by (simp add: uint32_def) blast

subsection \<open>The cursor\<close>

text \<open>
  C4, as amended. After every call of \<open>addChainPoint(point)\<close> that returns, the
  cursor is \<open>point\<close>. A call of \<open>g01Corrected(point)\<close> leaves the object, and with
  it the cursor, as it was.
\<close>

theorem cursor_after_call:
  "(addChainPoint a point = Some (out, a') \<longrightarrow> lastPoint a' = point)
   \<and> (g01Corrected a point = Some (out2, a2) \<longrightarrow> a2 = a)"
  by (auto simp: addChainPoint_def g01Corrected_def split: bind_splits if_splits)

lemma addChainPoint_sample:
  "\<exists>out. addChainPoint (sample\<lparr>numXPoints := 11, numYPoints := 9, XProbeDist := 10,
              YProbeDist := 10, averageProbeDist := 10\<rparr>) (0, 25)
     = Some (out, sample\<lparr>numXPoints := 11, numYPoints := 9, XProbeDist := 10,
              YProbeDist := 10, averageProbeDist := 10, lastPoint := (0, 25)\<rparr>)"
proof -
  have n: "(3 :: 32 word) \<noteq> - 1" by simp
  show ?thesis
    by (simp add: addChainPoint_def numOfSubsegments_def ceil_quotient_def to_uint_def
        distance_def sample_fields splitSegment_points [OF n] split_point_def upt_rec
        interpolatePoint_def xminindex_def yminindex_def to_int_def)
qed

lemma g01Corrected_sample:
  "\<exists>out. g01Corrected (sample\<lparr>numXPoints := 11, numYPoints := 9, XProbeDist := 10,
              YProbeDist := 10, averageProbeDist := 10\<rparr>) (0, 25)
     = Some (out, sample\<lparr>numXPoints := 11, numYPoints := 9, XProbeDist := 10,
              YProbeDist := 10, averageProbeDist := 10\<rparr>)"
  by (simp add: g01Corrected_def sample_fields interpolatePoint_def xminindex_def yminindex_def
      to_int_def)

theorem cursor_after_call_witness:
  "\<exists>out a' out2 a2.
      addChainPoint (sample\<lparr>numXPoints := 11, numYPoints := 9, XProbeDist := 10,
              YProbeDist := 10, averageProbeDist := 10\<rparr>) (0, 25) = Some (out, a')
    \<and> lastPoint a' = (0, 25)
    \<and> g01Corrected (sample\<lparr>numXPoints := 11, numYPoints := 9, XProbeDist := 10,
              YProbeDist := 10, averageProbeDist := 10\<rparr>) (0, 25) = Some (out2, a2)
    \<and> lastPoint a2 = (0, 0)"
proof -
  let ?g = "sample\<lparr>numXPoints := 11, numYPoints := 9, XProbeDist := 10,
              YProbeDist := 10, averageProbeDist := 10\<rparr>"
  from addChainPoint_sample obtain out a' where 1: "addChainPoint ?g (0, 25) = Some (out, a')"
    by blast
  from g01Corrected_sample obtain out2 a2 where 2: "g01Corrected ?g (0, 25) = Some (out2, a2)"
    by blast
  from cursor_after_call [of ?g "(0, 25)" out a' out2 a2] 1 2
  have "lastPoint a' = (0, 25)" and "a2 = ?g" by simp_all
  then have "lastPoint a' = (0, 25)" and "lastPoint a2 = (0, 0)" by (simp_all add: sample_fields)
  with 1 2 show ?thesis by blast
qed

text \<open>
  The claim as it was stated fails for \<open>g01Corrected\<close>: after the call for the point
  \<open>(1, 1)\<close> the cursor is still \<open>(0, 0)\<close>.
\<close>

theorem g01Corrected_cursor_counterexample:
  "g01Corrected (sample\<lparr>software := LINUXCNC\<rparr>) (1, 1)
     = Some ([S ''o'', I 100, S '' call ['', D 1, S ''] ['', D 1, S '']\<newline>''],
             sample\<lparr>software := LINUXCNC\<rparr>)
   \<and> lastPoint (sample\<lparr>software := LINUXCNC\<rparr>) = (0, 0)
   \<and> lastPoint (sample\<lparr>software := LINUXCNC\<rparr>) \<noteq> (1, 1)"
  by (simp add: g01Corrected_def call_sub2_def bformat_def sample_eq)

subsection \<open>The probing program\<close>

lemma header_while_up:
  assumes "0 \<le> j"
  shows "header_while a i j 1 out =
     Some (max j (numYPoints a),
           out @ concat (map (probe_point a i) (map int [nat j ..< nat (numYPoints a)])))"
  using assms
proof (induction "nat (numYPoints a - j)" arbitrary: j out)
  case 0
  then have "\<not> j \<le> numYPoints a - 1" by simp
  moreover from 0 have "max j (numYPoints a) = j" "nat (numYPoints a) \<le> nat j" by simp_all
  ultimately show ?case by (subst header_while.simps) simp
next
  case (Suc d)
  then have le: "j \<le> numYPoints a - 1" by simp
  have d: "d = nat (numYPoints a - (j + 1))" using Suc.hyps(2) by simp
  have j1: "0 \<le> j + 1" using Suc.prems by simp
  have l: "[nat j ..< nat (numYPoints a)] = nat j # [nat (j + 1) ..< nat (numYPoints a)]"
    using le Suc.prems by (simp add: upt_conv_Cons nat_add_distrib)
  have m: "max (j + 1) (numYPoints a) = max j (numYPoints a)" using le by simp
  show ?case
    using le Suc.prems
    by (subst header_while.simps) (simp add: Suc.hyps(1) [OF d j1] l m)
qed

lemma header_while_down:
  assumes "j \<le> numYPoints a - 1"
  shows "header_while a i j (- 1) out =
     Some (min j (- 1),
           out @ concat (map (probe_point a i) (rev (map int [0 ..< nat (j + 1)]))))"
  using assms
proof (induction "nat (j + 1)" arbitrary: j out)
  case 0
  then have "\<not> 0 \<le> j" by simp
  moreover from 0 have "min j (- 1) = j" by simp
  ultimately show ?case using 0 by (subst header_while.simps) simp
next
  case (Suc d)
  then have ge: "0 \<le> j" by simp
  have d: "d = nat (j - 1 + 1)" using Suc.hyps(2) by simp
  have j1: "j - 1 \<le> numYPoints a - 1" using Suc.prems by simp
  have l: "[0 ..< nat (j + 1)] = [0 ..< nat j] @ [nat j]"
    using ge by (simp add: nat_add_distrib)
  have m: "min (j - 1) (- 1) = - 1" "min j (- 1) = - 1" using ge by simp_all
  have ih: "header_while a i (j - 1) (- 1) (out @ probe_point a i j) =
     Some (- 1, (out @ probe_point a i j)
                @ concat (map (probe_point a i) (rev (map int [0 ..< nat j]))))"
    using Suc.hyps(1) [OF d j1, of "out @ probe_point a i j"] by (simp add: m)
  show ?case
    using ge Suc.prems
    by (subst header_while.simps) (simp add: ih l m)
qed

lemma serpentine_column_nil: "ny \<le> 0 \<Longrightarrow> serpentine_column ny i = []"
  by (simp add: serpentine_column_def)

lemma header_for_columns:
  assumes "0 \<le> i"
  shows "header_for a i
           (if 1 \<le> numYPoints a then (if i = 0 then 1 else if odd i then numYPoints a - 1 else 0)
            else (if odd i then 0 else 1))
           (if odd i then - 1 else 1) out =
     Some (out @ concat (map (\<lambda>(i, j). probe_point a i j)
                   (concat (map (serpentine_column (numYPoints a))
                      (map int [nat i ..< nat (numXPoints a)])))))"
  using assms
proof (induction "nat (numXPoints a - i)" arbitrary: i out)
  case 0
  then have "\<not> i < numXPoints a" "nat (numXPoints a) \<le> nat i" by simp_all
  then show ?case by (subst header_for.simps) simp
next
  case (Suc d)
  then have lt: "i < numXPoints a" by simp
  have d: "d = nat (numXPoints a - (i + 1))" using Suc.hyps(2) by simp
  have i1: "0 \<le> i + 1" using Suc.prems by simp
  have l: "[nat i ..< nat (numXPoints a)] = nat i # [nat (i + 1) ..< nat (numXPoints a)]"
    using lt Suc.prems by (simp add: upt_conv_Cons nat_add_distrib)
  note ih = Suc.hyps(1) [OF d i1]
  let ?R = "\<lambda>i. concat (map (\<lambda>(i, j). probe_point a i j)
                   (concat (map (serpentine_column (numYPoints a))
                      (map int [nat i ..< nat (numXPoints a)]))))"
  have col: "concat (map (\<lambda>(i, j). probe_point a i j) (serpentine_column ny i)) =
      concat (map (probe_point a i)
        (if i = 0 then map int [1 ..< nat ny] else if even i then map int [0 ..< nat ny]
         else rev (map int [0 ..< nat ny])))" for ny
    by (simp add: serpentine_column_def comp_def)
  have rhs: "?R i = concat (map (probe_point a i)
        (if i = 0 then map int [1 ..< nat (numYPoints a)]
         else if even i then map int [0 ..< nat (numYPoints a)]
         else rev (map int [0 ..< nat (numYPoints a)]))) @ ?R (i + 1)"
    using Suc.prems by (simp add: l col)
  show ?case
  proof (cases "1 \<le> numYPoints a")
    case True
    show ?thesis 
    proof (cases "odd i")
      case odd: True
      then have "i \<noteq> 0" by auto
      with odd True lt Suc.prems show ?thesis
        using ih [of "out @ concat (map (probe_point a i) (rev (map int [0 ..< nat (numYPoints a)])))"]
        unfolding rhs
        by (subst header_for.simps) (simp add: header_while_down)
    next
      case even: False
      show ?thesis
      proof (cases "i = 0")
        case z: True
        with even True lt Suc.prems show ?thesis
          using ih [of "out @ concat (map (probe_point a i) (map int [1 ..< nat (numYPoints a)]))"]
          unfolding rhs
          by (subst header_for.simps) (simp add: header_while_up max_def)
      next
        case nz: False
        with even True lt Suc.prems show ?thesis
          using ih [of "out @ concat (map (probe_point a i) (map int [0 ..< nat (numYPoints a)]))"]
          unfolding rhs
          by (subst header_for.simps) (simp add: header_while_up max_def)
      qed
    qed
  next
    case False
    then have ny: "numYPoints a \<le> 0" by simp
    show ?thesis
    proof (cases "odd i")
      case odd: True
      with False ny lt Suc.prems show ?thesis
        using ih [of out]
        unfolding rhs
        by (subst header_for.simps) (simp add: header_while.simps [of a i 0])
    next
      case even: False
      with False ny lt Suc.prems show ?thesis
        using ih [of out]
        unfolding rhs
        by (subst header_for.simps) (simp add: header_while.simps [of a i 1])
    qed
  qed
qed

lemma header_for_start:
  "header_for a 0 1 1 [] =
     Some (concat (map (\<lambda>(i, j). probe_point a i j) (serpentine (numXPoints a) (numYPoints a))))"
  using header_for_columns [of 0 a "[]"] by (simp add: serpentine_def split: if_splits)

lemma header_result:
  "\<exists>sub trav ocodes'.
      header a ocodes =
        Some (sub @ (if feedrate a \<noteq> [] then header_reference a @ trav else [])
                @ (if feedrate2nd a \<noteq> [] then header_second_pass a else [])
                @ header_end a, ocodes')
    \<and> (software a = CUSTOM \<longrightarrow>
          sub = [] \<and> ocodes' = ocodes
        \<and> trav = concat (map (\<lambda>(i, j). probe_point a i j)
                    (serpentine (numXPoints a) (numYPoints a))))"
proof (cases "software a = CUSTOM")
  case True
  then show ?thesis
    by (simp add: header_def header_traversal_def header_for_start)
next
  case False
  obtain sub ocodes1 where s: "(if software a = LINUXCNC then footerNoIf a ocodes else ([], ocodes)) = (sub, ocodes1)"
    by (cases "if software a = LINUXCNC then footerNoIf a ocodes else ([], ocodes)")
  obtain trav ocodes2 where t: "header_traversal a ocodes1 = Some (trav, ocodes2)"
    using False by (simp add: header_traversal_def case_prod_beta)
  show ?thesis
    using False by (auto simp: header_def s t)
qed

lemma sublist_in_middle:
  assumes "sublist xs ys"
  shows "sublist xs (ps @ ys @ ss)"
proof -
  from assms obtain p q where "ys = p @ xs @ q" by (auto simp: sublist_def)
  then have "ps @ ys @ ss = (ps @ p) @ xs @ (q @ ss)" by simp
  then show ?thesis unfolding sublist_def by blast
qed

lemma sublist_skip: "sublist xs ys \<Longrightarrow> sublist xs (ps @ ys)"
  using sublist_in_middle [of xs ys ps "[]"] by simp

lemma header_reference_lines:
  "sublist (move_to_safe_height a) (header_reference a)"
  "sublist (move_to_probe_height a) (header_reference a)"
  "sublist (reference_probe a) (header_reference a)"
  "sublist reference_value (header_reference a)"
  unfolding header_reference_def
  by ((rule sublist_append_rightI | rule sublist_skip)+)+

lemma image_int_upt: "int ` {m ..< nat n} = {int m ..< n}"
  by (cases "0 \<le> n") (auto simp: image_int_atLeastLessThan)

lemma set_serpentine_column:
  "set (serpentine_column ny i) = {i} \<times> (if i = 0 then {1 ..< ny} else {0 ..< ny})"
  using image_int_upt [of 0 ny] image_int_upt [of 1 ny]
  by (auto simp: serpentine_column_def image_image)

lemma distinct_serpentine_column: "distinct (serpentine_column ny i)"
  by (simp add: serpentine_column_def distinct_map inj_on_def)

lemma distinct_concat_map:
  assumes "distinct ks" and "\<And>k. k \<in> set ks \<Longrightarrow> distinct (f k)"
    and "\<And>k l. k \<in> set ks \<Longrightarrow> l \<in> set ks \<Longrightarrow> k \<noteq> l \<Longrightarrow> set (f k) \<inter> set (f l) = {}"
  shows "distinct (concat (map f ks))"
  using assms
proof (induction ks)
  case Nil
  then show ?case by simp
next
  case (Cons k ks)
  then have "distinct (concat (map f ks))" by simp
  moreover have "distinct (f k)" using Cons.prems(2) by simp
  moreover have "set (f k) \<inter> set (f l) = {}" if "l \<in> set ks" for l
    using Cons.prems(1) Cons.prems(3) [of k l] that by auto
  ultimately show ?case by auto
qed

lemma serpentine_distinct: "distinct (serpentine nx ny)"
  unfolding serpentine_def
  by (rule distinct_concat_map)
    (auto simp: distinct_map inj_on_def distinct_serpentine_column set_serpentine_column)

lemma serpentine_set:
  "set (serpentine nx ny) = {(i, j). 0 \<le> i \<and> i < nx \<and> 0 \<le> j \<and> j < ny} - {(0, 0)}"
proof -
  have "set (serpentine nx ny) = (\<Union>i \<in> int ` {0 ..< nat nx}. set (serpentine_column ny i))"
    by (simp add: serpentine_def)
  also have "\<dots> = (\<Union>i \<in> {0 ..< nx}. set (serpentine_column ny i))"
    using image_int_upt [of 0 nx] by simp
  finally show ?thesis by (auto simp: set_serpentine_column split: if_splits)
qed

lemma header_end_safe_height: "sublist (move_to_safe_height a) (header_end a)"
  unfolding header_end_def by (rule sublist_append_rightI | rule sublist_skip)+

lemma header_end_working_depth:
  assumes "software a = CUSTOM"
  shows "sublist (working_depth_parameter a) (header_end a)"
  unfolding header_end_def
  by (simp only: assms if_True if_False simp_thms)
    ((rule sublist_append_rightI | rule sublist_skip)+)

lemma footerNoIf_corrected_g01:
  assumes "software a \<noteq> CUSTOM"
  shows "sublist (corrected_g01 a) (fst (footerNoIf a ocodes))"
  unfolding footerNoIf_def Let_def case_prod_beta
  by (simp only: assms if_True if_False simp_thms fst_conv)
    ((rule sublist_append_rightI | rule sublist_skip)+)

lemma probe_point_store:
  "suffix ([getVarName a i j, S ''=''] @ zProbeResultVarCustom a @ [endl]) (probe_point a i j)"
  unfolding probe_point_def suffix_def by (metis append.assoc)

lemma not_reference:
  assumes "(i, j) \<in> set (serpentine nx (numYPoints a))" and "nx * numYPoints a \<le> 2 ^ 32"
  shows "getVarName a i j \<noteq> P 500"
proof
  assume "getVarName a i j = P 500"
  then have u: "uint32 (i * numYPoints a + j + 500) = uint32 (0 + 500)"
    by (simp add: getVarName_def uint32_def)
  from assms(1) have r: "0 \<le> i" "i < nx" "0 \<le> j" "j < numYPoints a" "(i, j) \<noteq> (0, 0)"
    by (auto simp: serpentine_set)
  have k: "0 \<le> i * numYPoints a + j" "i * numYPoints a + j < 2 ^ 32"
    using index_range [OF r(1-4)] assms(2) by simp_all
  have "i * numYPoints a + j = 0" by (rule uint32_shift_inj [OF k _ _ u]) simp_all
  then have e: "i * numYPoints a + j = 0 * numYPoints a + 0" by simp
  from r have "0 < numYPoints a" by simp
  with index_unique [OF r(3) r(4) _ _ e] r(5) show False by simp
qed

text \<open>
  C10. For the custom dialect with a probe feed rate, \<open>header\<close> returns, and between
  its first lines and its last lines it writes the four lines of \<open>probe_point\<close>,
  which end with the store into \<open>getVarName(i, j)\<close>, for the points of the
  serpentine order of the specification, one after the other, and nothing else. That
  order holds every point of the grid except \<open>(0, 0)\<close> exactly once. On a grid of at
  most \<open>2 ^ 32\<close> points no store of the traversal goes to parameter 500, the name of
  point \<open>(0, 0)\<close>; the first lines assign it the constant 0.
\<close>

theorem header_custom_traversal:
  assumes "software a = CUSTOM" and "feedrate a \<noteq> []"
  shows "header a ocodes =
           Some (header_reference a
                 @ concat (map (\<lambda>(i, j). probe_point a i j)
                     (serpentine (numXPoints a) (numYPoints a)))
                 @ (if feedrate2nd a \<noteq> [] then header_second_pass a else [])
                 @ header_end a, ocodes)
       \<and> distinct (serpentine (numXPoints a) (numYPoints a))
       \<and> set (serpentine (numXPoints a) (numYPoints a))
           = {(i, j). 0 \<le> i \<and> i < numXPoints a \<and> 0 \<le> j \<and> j < numYPoints a} - {(0, 0)}
       \<and> (\<forall>i j. suffix ([getVarName a i j, S ''=''] @ zProbeResultVarCustom a @ [endl])
                   (probe_point a i j))
       \<and> (numXPoints a * numYPoints a \<le> 2 ^ 32 \<longrightarrow>
            (\<forall>(i, j) \<in> set (serpentine (numXPoints a) (numYPoints a)). getVarName a i j \<noteq> P 500))
       \<and> getVarName a 0 0 = P 500
       \<and> sublist reference_value (header_reference a)"
proof -
  from header_result [of a ocodes] assms
  have 1: "header a ocodes =
           Some (header_reference a
                 @ concat (map (\<lambda>(i, j). probe_point a i j)
                     (serpentine (numXPoints a) (numYPoints a)))
                 @ (if feedrate2nd a \<noteq> [] then header_second_pass a else [])
                 @ header_end a, ocodes)"
    by auto
  have 2: "numXPoints a * numYPoints a \<le> 2 ^ 32 \<longrightarrow>
      (\<forall>(i, j) \<in> set (serpentine (numXPoints a) (numYPoints a)). getVarName a i j \<noteq> P 500)"
    using not_reference by blast
  have 3: "getVarName a 0 0 = P 500" by (simp add: getVarName_def uint32_def)
  from 1 2 3 serpentine_distinct serpentine_set probe_point_store header_reference_lines(4)
  show ?thesis by blast
qed

theorem header_custom_traversal_witness:
  "software (sample\<lparr>numXPoints := 2, numYPoints := 2\<rparr>) = CUSTOM
   \<and> feedrate (sample\<lparr>numXPoints := 2, numYPoints := 2\<rparr>) \<noteq> []
   \<and> serpentine 2 2 = [(0, 1), (1, 1), (1, 0)]
   \<and> header (sample\<lparr>numXPoints := 2, numYPoints := 2\<rparr>) 7 =
         Some (header_reference (sample\<lparr>numXPoints := 2, numYPoints := 2\<rparr>)
               @ probe_point (sample\<lparr>numXPoints := 2, numYPoints := 2\<rparr>) 0 1
               @ probe_point (sample\<lparr>numXPoints := 2, numYPoints := 2\<rparr>) 1 1
               @ probe_point (sample\<lparr>numXPoints := 2, numYPoints := 2\<rparr>) 1 0
               @ header_end (sample\<lparr>numXPoints := 2, numYPoints := 2\<rparr>), 7)
   \<and> getVarName (sample\<lparr>numXPoints := 2, numYPoints := 2\<rparr>) 0 1 \<noteq> P 500
   \<and> getVarName (sample\<lparr>numXPoints := 2, numYPoints := 2\<rparr>) 1 1 \<noteq> P 500
   \<and> getVarName (sample\<lparr>numXPoints := 2, numYPoints := 2\<rparr>) 1 0 \<noteq> P 500"
proof -
  let ?g = "sample\<lparr>numXPoints := 2, numYPoints := 2\<rparr>"
  have h: "software ?g = CUSTOM" "feedrate ?g \<noteq> []" by (simp_all add: sample_fields)
  have s: "serpentine (numXPoints ?g) (numYPoints ?g) = [(0, 1), (1, 1), (1, 0)]"
    by (simp add: serpentine_def serpentine_column_def upt_rec)
  have s2: "serpentine 2 2 = [(0, 1), (1, 1), (1, 0)]"
    by (simp add: serpentine_def serpentine_column_def upt_rec)
  from header_custom_traversal [OF h, of 7]
  have "header ?g 7 =
         Some (header_reference ?g @ probe_point ?g 0 1 @ probe_point ?g 1 1
               @ probe_point ?g 1 0 @ header_end ?g, 7)
      \<and> getVarName ?g 0 1 \<noteq> P 500 \<and> getVarName ?g 1 1 \<noteq> P 500 \<and> getVarName ?g 1 0 \<noteq> P 500"
    unfolding s by (simp add: sample_fields)
  with h s2 show ?thesis by blast
qed

lemma header_depth_lines:
  assumes "a = fst (new_autoleveller FIXED_FAIL_DEPTH_MM FIXED_FAIL_DEPTH_IN opts ocodes globalVars
                      q xo yo tiles rest)"
  shows "zwork a = [F 5 (opt_zwork opts * unitconv_of opts)]
       \<and> zsafe a = [F 3 (opt_zsafe opts * unitconv_of opts)]
       \<and> zprobe a = [F 3 (opt_zsafe opts * unitconv_of opts)]
       \<and> zfail a = [F 3 (if opt_metricoutput opts then FIXED_FAIL_DEPTH_MM else FIXED_FAIL_DEPTH_IN)]
       \<and> (\<exists>out ocodes'. header a ocodes2 = Some (out, ocodes')
            \<and> sublist (move_to_safe_height a) out
            \<and> (software a = CUSTOM \<longrightarrow> sublist (working_depth_parameter a) out)
            \<and> (0 < opt_al_probefeed opts \<longrightarrow>
                  sublist (move_to_probe_height a) out \<and> sublist (reference_probe a) out))
       \<and> (software a \<noteq> CUSTOM \<longrightarrow> sublist (corrected_g01 a) (fst (footerNoIf a ocodes2)))"
proof -
  have f: "zwork a = [F 5 (opt_zwork opts * unitconv_of opts)]"
    "zsafe a = [F 3 (opt_zsafe opts * unitconv_of opts)]"
    "zprobe a = [F 3 (opt_zsafe opts * unitconv_of opts)]"
    "zfail a = [F 3 (if opt_metricoutput opts then FIXED_FAIL_DEPTH_MM else FIXED_FAIL_DEPTH_IN)]"
    "0 < opt_al_probefeed opts \<Longrightarrow> feedrate a \<noteq> []"
    by (simp_all add: assms new_autoleveller_def Let_def case_prod_beta)
  obtain sub trav ocodes' where
    h: "header a ocodes2 =
        Some (sub @ (if feedrate a \<noteq> [] then header_reference a @ trav else [])
                @ (if feedrate2nd a \<noteq> [] then header_second_pass a else [])
                @ header_end a, ocodes')"
    using header_result [of a ocodes2] by blast
  let ?out = "sub @ (if feedrate a \<noteq> [] then header_reference a @ trav else [])
                @ (if feedrate2nd a \<noteq> [] then header_second_pass a else [])
                @ header_end a"
  have e: "sublist xs (header_end a) \<Longrightarrow> sublist xs ?out" for xs
    by (intro sublist_skip)
  have r: "feedrate a \<noteq> [] \<Longrightarrow> sublist xs (header_reference a) \<Longrightarrow> sublist xs ?out" for xs
    using sublist_in_middle [of xs "header_reference a" sub] by simp
  have 1: "sublist (move_to_safe_height a) ?out" by (rule e [OF header_end_safe_height])
  have 2: "software a = CUSTOM \<longrightarrow> sublist (working_depth_parameter a) ?out"
    using e [OF header_end_working_depth] by blast
  have 3: "0 < opt_al_probefeed opts \<longrightarrow>
      sublist (move_to_probe_height a) ?out \<and> sublist (reference_probe a) ?out"
    using r [OF f(5) header_reference_lines(2)] r [OF f(5) header_reference_lines(3)] by blast
  from f(1-4) h 1 2 3 footerNoIf_corrected_g01 [of a ocodes2] show ?thesis by blast
qed

lemma sample_linuxcnc_fields:
  "software sample_linuxcnc = LINUXCNC" "zwork sample_linuxcnc = [F 5 (- 1 / 20)]"
  by (simp_all add: sample_linuxcnc_def new_autoleveller_def sample_options_def getUniqueCode_def
      unitconv_of_def software_of_def iequals_def to_lower_def Let_def)

text \<open>
  C9, as amended. The constructor reads two depths from the configuration, the
  working depth and the safe height, and multiplies each by the unit conversion.
  The probe height is the safe height, and the fail depth is one of the two fixed
  constants of the header file, chosen by the unit of the output. \<open>header\<close> returns,
  and writes the safe height in the move to the safe height; with a probe feed rate
  it writes the same safe height in the move to the probe height and the fixed fail
  depth in the probe command. The working depth is written in the line \<open>#4 = ...\<close>
  of the custom dialect and in the corrected move of the subroutine of the others.
\<close>

theorem configured_depths:
  assumes "a = fst (new_autoleveller FIXED_FAIL_DEPTH_MM FIXED_FAIL_DEPTH_IN opts ocodes globalVars
                      q xo yo tiles rest)"
  shows "zwork a = [F 5 (opt_zwork opts * unitconv_of opts)]
       \<and> zsafe a = [F 3 (opt_zsafe opts * unitconv_of opts)]
       \<and> zprobe a = [F 3 (opt_zsafe opts * unitconv_of opts)]
       \<and> zfail a = [F 3 (if opt_metricoutput opts then FIXED_FAIL_DEPTH_MM else FIXED_FAIL_DEPTH_IN)]
       \<and> (\<exists>out ocodes'. header a ocodes2 = Some (out, ocodes')
            \<and> sublist [S ''G0 Z'', F 3 (opt_zsafe opts * unitconv_of opts),
                        S '' ( Move Z to safe height )'', endl] out
            \<and> (software a = CUSTOM \<longrightarrow>
                  sublist [S ''\<newline>#4 = '', F 5 (opt_zwork opts * unitconv_of opts), S ''\<newline>''] out)
            \<and> (0 < opt_al_probefeed opts \<longrightarrow>
                  sublist [S ''G0 Z'', F 3 (opt_zsafe opts * unitconv_of opts),
                           S '' ( Move Z to probe height )'', endl] out
                \<and> sublist (probe_command a
                      @ [S '' Z'',
                         F 3 (if opt_metricoutput opts then FIXED_FAIL_DEPTH_MM
                              else FIXED_FAIL_DEPTH_IN),
                         S '' F'', L (opt_al_probefeed opts * unitconv_of opts),
                         S '' ( Z-probe )'', endl]) out))
       \<and> (software a \<noteq> CUSTOM \<longrightarrow>
             sublist ([S ''    G01 X#''] @ var1 a ! idx (software a)
                      @ [S '' Y#''] @ var2 a ! idx (software a)
                      @ [S '' Z['', F 5 (opt_zwork opts * unitconv_of opts), S ''+#15]'', endl])
               (fst (footerNoIf a ocodes2)))"
proof -
  note h = header_depth_lines [OF assms, of ocodes2]
  from h have f: "zwork a = [F 5 (opt_zwork opts * unitconv_of opts)]"
    "zsafe a = [F 3 (opt_zsafe opts * unitconv_of opts)]"
    "zprobe a = [F 3 (opt_zsafe opts * unitconv_of opts)]"
    "zfail a = [F 3 (if opt_metricoutput opts then FIXED_FAIL_DEPTH_MM else FIXED_FAIL_DEPTH_IN)]"
    by blast+
  have fr: "0 < opt_al_probefeed opts \<Longrightarrow> feedrate a = [L (opt_al_probefeed opts * unitconv_of opts)]"
    by (simp add: assms new_autoleveller_def Let_def case_prod_beta)
  have l: "move_to_safe_height a
        = [S ''G0 Z'', F 3 (opt_zsafe opts * unitconv_of opts), S '' ( Move Z to safe height )'', endl]"
    "move_to_probe_height a
        = [S ''G0 Z'', F 3 (opt_zsafe opts * unitconv_of opts), S '' ( Move Z to probe height )'', endl]"
    "working_depth_parameter a
        = [S ''\<newline>#4 = '', F 5 (opt_zwork opts * unitconv_of opts), S ''\<newline>'']"
    "corrected_g01 a
        = [S ''    G01 X#''] @ var1 a ! idx (software a) @ [S '' Y#''] @ var2 a ! idx (software a)
          @ [S '' Z['', F 5 (opt_zwork opts * unitconv_of opts), S ''+#15]'', endl]"
    "0 < opt_al_probefeed opts \<Longrightarrow> reference_probe a
        = probe_command a
          @ [S '' Z'',
             F 3 (if opt_metricoutput opts then FIXED_FAIL_DEPTH_MM else FIXED_FAIL_DEPTH_IN),
             S '' F'', L (opt_al_probefeed opts * unitconv_of opts), S '' ( Z-probe )'', endl]"
    by (simp_all add: move_to_safe_height_def move_to_probe_height_def working_depth_parameter_def
        corrected_g01_def reference_probe_def f fr)
  from h l(5) show ?thesis unfolding l(1-4) by metis
qed

theorem configured_depths_witness:
  "sample = fst (new_autoleveller (- 3) (- 1 / 10) sample_options 100 100 0 0 0 sample_tiles unset)
   \<and> software sample = CUSTOM \<and> 0 < opt_al_probefeed sample_options
   \<and> (\<exists>out ocodes'. header sample 7 = Some (out, ocodes')
         \<and> sublist [S ''G0 Z'', F 3 2, S '' ( Move Z to safe height )'', endl] out
         \<and> sublist [S ''\<newline>#4 = '', F 5 (- 1 / 20), S ''\<newline>''] out
         \<and> sublist [S ''G0 Z'', F 3 2, S '' ( Move Z to probe height )'', endl] out
         \<and> sublist [S ''G31'', S '' Z'', F 3 (- 1 / 10), S '' F'', L 100, S '' ( Z-probe )'', endl]
              out)
   \<and> software sample_linuxcnc \<noteq> CUSTOM
   \<and> sublist [S ''    G01 X#'', S ''1'', S '' Y#'', S ''2'', S '' Z['', F 5 (- 1 / 20),
               S ''+#15]'', endl]
        (fst (footerNoIf sample_linuxcnc 7))"
proof -
  have o: "0 < opt_al_probefeed sample_options" by (simp add: sample_options_def)
  have c: "software sample = CUSTOM" by (rule sample_fields)
  have v: "opt_zsafe sample_options * unitconv_of sample_options = 2"
    "opt_zwork sample_options * unitconv_of sample_options = - 1 / 20"
    "opt_al_probefeed sample_options * unitconv_of sample_options = 100"
    "opt_metricoutput sample_options = False" "probe_command sample = [S ''G31'']"
    by (simp_all add: sample_options_def unitconv_of_def probe_command_def sample_fields)
  from configured_depths [OF sample_def, of 7] o c
  have 1: "\<exists>out ocodes'. header sample 7 = Some (out, ocodes')
         \<and> sublist [S ''G0 Z'', F 3 2, S '' ( Move Z to safe height )'', endl] out
         \<and> sublist [S ''\<newline>#4 = '', F 5 (- 1 / 20), S ''\<newline>''] out
         \<and> sublist [S ''G0 Z'', F 3 2, S '' ( Move Z to probe height )'', endl] out
         \<and> sublist [S ''G31'', S '' Z'', F 3 (- 1 / 10), S '' F'', L 100, S '' ( Z-probe )'', endl]
              out"
    unfolding v by simp
  have l: "software sample_linuxcnc \<noteq> CUSTOM" by (simp add: sample_linuxcnc_fields)
  have w: "opt_zwork (sample_options\<lparr>opt_software := ''LinuxCNC''\<rparr>)
             * unitconv_of (sample_options\<lparr>opt_software := ''LinuxCNC''\<rparr>) = - 1 / 20"
    "var1 sample_linuxcnc ! idx (software sample_linuxcnc) = [S ''1'']"
    "var2 sample_linuxcnc ! idx (software sample_linuxcnc) = [S ''2'']"
    by (simp_all add: sample_options_def unitconv_of_def var1_def var2_def sample_linuxcnc_fields)
  from configured_depths [OF sample_linuxcnc_def, of 7] l
  have 2: "sublist [S ''    G01 X#'', S ''1'', S '' Y#'', S ''2'', S '' Z['', F 5 (- 1 / 20),
               S ''+#15]'', endl]
        (fst (footerNoIf sample_linuxcnc 7))"
    unfolding w by simp
  from 1 2 l o c sample_def show ?thesis by blast
qed

lemma other_depths:
  "zsafe (fst (new_autoleveller (- 3) (- 1 / 10) (sample_options\<lparr>opt_zwork := - 1 / 5, opt_zsafe := 5\<rparr>)
                 100 100 0 0 0 sample_tiles unset)) = [F 3 5]"
  "zprobe (fst (new_autoleveller (- 3) (- 1 / 10) (sample_options\<lparr>opt_zwork := - 1 / 5, opt_zsafe := 5\<rparr>)
                 100 100 0 0 0 sample_tiles unset)) = [F 3 5]"
  "zfail (fst (new_autoleveller (- 3) (- 1 / 10) (sample_options\<lparr>opt_zwork := - 1 / 5, opt_zsafe := 5\<rparr>)
                 100 100 0 0 0 sample_tiles unset)) = [F 3 (- 1 / 10)]"
  by (simp_all add: new_autoleveller_def sample_options_def getUniqueCode_def unitconv_of_def
      Let_def)

text \<open>
  The claim as it was stated fails: with a working depth of -0.05 and a safe height
  of 2 configured, the move to the probe height carries 2, the safe height, and the
  probe command carries -0.1, the fixed constant; with other depths configured the
  probe height follows the safe height and the fail depth stays.
\<close>

theorem configured_depths_counterexample:
  "opt_zwork sample_options = - 1 / 20 \<and> opt_zsafe sample_options = 2
   \<and> move_to_safe_height sample = [S ''G0 Z'', F 3 2, S '' ( Move Z to safe height )'', endl]
   \<and> move_to_probe_height sample = [S ''G0 Z'', F 3 2, S '' ( Move Z to probe height )'', endl]
   \<and> reference_probe sample
       = [S ''G31'', S '' Z'', F 3 (- 1 / 10), S '' F'', L 100, S '' ( Z-probe )'', endl]
   \<and> zprobe (fst (new_autoleveller (- 3) (- 1 / 10)
                  (sample_options\<lparr>opt_zwork := - 1 / 5, opt_zsafe := 5\<rparr>)
                  100 100 0 0 0 sample_tiles unset)) = [F 3 5]
   \<and> zfail (fst (new_autoleveller (- 3) (- 1 / 10)
                  (sample_options\<lparr>opt_zwork := - 1 / 5, opt_zsafe := 5\<rparr>)
                  100 100 0 0 0 sample_tiles unset)) = [F 3 (- 1 / 10)]"
proof -
  have a: "opt_zwork sample_options = - 1 / 20" "opt_zsafe sample_options = 2"
    by (simp_all add: sample_options_def)
  have b: "move_to_safe_height sample = [S ''G0 Z'', F 3 2, S '' ( Move Z to safe height )'', endl]"
    "move_to_probe_height sample = [S ''G0 Z'', F 3 2, S '' ( Move Z to probe height )'', endl]"
    "reference_probe sample
       = [S ''G31'', S '' Z'', F 3 (- 1 / 10), S '' F'', L 100, S '' ( Z-probe )'', endl]"
    by (simp_all add: move_to_safe_height_def move_to_probe_height_def reference_probe_def
        probe_command_def sample_fields)
  from a b other_depths(2,3) show ?thesis by blast
qed

end
